theory Spec2Isabelle
  imports Main "HOL-Library.Sublist"
begin

section \<open>Python values used by the accessor\<close>

text \<open>
  A Python \<open>str\<close> is a sequence of Unicode code points, so it is modelled as a list of
  natural numbers; \<open>lit\<close> embeds an ASCII literal. The decorative symbols of the source
  are written by their code points.
\<close>

type_synonym pystr = "nat list"

definition lit :: "string \<Rightarrow> pystr" where
  "lit s = map of_char s"

text \<open>\<open>str.startswith\<close>, \<open>str.endswith\<close> and string concatenation.\<close>

definition startswith :: "pystr \<Rightarrow> pystr \<Rightarrow> bool" where
  "startswith s p = (take (length p) s = p)"

definition endswith :: "pystr \<Rightarrow> pystr \<Rightarrow> bool" where
  "endswith s p = (length p \<le> length s \<and> drop (length s - length p) s = p)"

text \<open>\<open>str(n)\<close> for an integer: its decimal digits.\<close>

fun str_nat :: "nat \<Rightarrow> pystr" where
  "str_nat n = (if n < 10 then [48 + n] else str_nat (n div 10) @ [48 + n mod 10])"

declare str_nat.simps [simp del]

definition str_int :: "int \<Rightarrow> pystr" where
  "str_int i = (if i < 0 then 45 # str_nat (nat (- i)) else str_nat (nat i))"

text \<open>
  \<open>repr\<close> of a \<open>str\<close>: for printable ASCII text without a single quote or a
  backslash Python writes the text between single quotes. Any other text is left to the
  interpreter (the parameter \<open>repr_other\<close>).
\<close>

definition plain_char :: "nat \<Rightarrow> bool" where
  "plain_char c = (32 \<le> c \<and> c < 127 \<and> c \<noteq> 39 \<and> c \<noteq> 92)"

definition repr_str :: "(pystr \<Rightarrow> pystr) \<Rightarrow> pystr \<Rightarrow> pystr" where
  "repr_str repr_other s = (if list_all plain_char s then [39] @ s @ [39] else repr_other s)"

fun join :: "pystr \<Rightarrow> pystr list \<Rightarrow> pystr" where
  "join sep [] = []"
| "join sep [x] = x"
| "join sep (x # y # ys) = x @ sep @ join sep (y # ys)"

text \<open>\<open>str\<close> of a list of strings, as an f-string formats it.\<close>

definition str_list :: "(pystr \<Rightarrow> pystr) \<Rightarrow> pystr list \<Rightarrow> pystr" where
  "str_list repr_other xs = [91] @ join (lit '', '') (map (repr_str repr_other) xs) @ [93]"

subsection \<open>Tables\<close>

text \<open>
  The working dataset is a pandas \<open>DataFrame\<close>: named columns and rows of cells. A cell
  is null, an integer or a boolean (the result of \<open>isna\<close>). A \<open>Series\<close> is a list of
  labelled cells; the label is a row position or a column name.
\<close>

datatype cell = Null | I int | B bool

datatype frame = Frame (cols: "pystr list") (rws: "cell list list")

datatype label = Pos nat | Name pystr

datatype series = Series (items: "(label \<times> cell) list")

text \<open>
  The Python values that reach the accessor. \<open>VObj c i\<close> is any other object: \<open>c\<close> its
  class name, \<open>i\<close> its identity; what can be done with it is left to the interpreter.
\<close>

datatype pyval =
    VNone
  | VBool bool
  | VInt int
  | VStr pystr
  | VList "pyval list"
  | VTuple "pyval list"
  | VFrame frame
  | VSeries series
  | VObj pystr nat

text \<open>Keyword arguments (\<open>**kwargs\<close>) keep their order.\<close>

type_synonym kwargs = "(pystr \<times> pyval) list"

text \<open>
  A subset selector is absent, one column name or a list of column names. Its truth value
  is Python's: \<open>None\<close>, the empty string and the empty list are falsy.
\<close>

datatype subset = SNone | SName pystr | SCols "pystr list"

fun subset_truthy :: "subset \<Rightarrow> bool" where
  "subset_truthy SNone = False"
| "subset_truthy (SName c) = (c \<noteq> [])"
| "subset_truthy (SCols cs) = (cs \<noteq> [])"

fun subset_val :: "subset \<Rightarrow> pyval" where
  "subset_val SNone = VNone"
| "subset_val (SName c) = VStr c"
| "subset_val (SCols cs) = VList (map VStr cs)"

text \<open>What \<open>f"{subset}"\<close> inserts.\<close>

fun str_subset :: "(pystr \<Rightarrow> pystr) \<Rightarrow> subset \<Rightarrow> pystr" where
  "str_subset repr_other SNone = lit ''None''"
| "str_subset repr_other (SName c) = c"
| "str_subset repr_other (SCols cs) = str_list repr_other cs"

text \<open>The truth value of an optional string (\<open>check_name\<close>, \<open>text\<close>).\<close>

fun name_truthy :: "pystr option \<Rightarrow> bool" where
  "name_truthy None = False"
| "name_truthy (Some n) = (n \<noteq> [])"

subsection \<open>Exceptions\<close>

text \<open>
  A raised exception is its class and its message. \<open>DataError\<close> is pandas' data-quality
  error, the default of \<open>assert_data\<close>; \<open>UserExn\<close> is a class supplied by the caller.
\<close>

datatype exn_class =
    DataError | TypeError | AttributeError | KeyError | IndexError | ValueError
  | UserExn pystr

datatype error = Raise exn_class pystr

fun message_of :: "error \<Rightarrow> pystr" where
  "message_of (Raise c m) = m"

fun class_of :: "error \<Rightarrow> exn_class" where
  "class_of (Raise c m) = c"

definition then_do :: "error + 'a \<Rightarrow> ('a \<Rightarrow> error + 'b) \<Rightarrow> error + 'b" where
  "then_do r f = (case r of Inl e \<Rightarrow> Inl e | Inr x \<Rightarrow> f x)"

text \<open>A transform or check function of the caller; the default is the identity.\<close>

type_synonym pyfun = "pyval \<Rightarrow> error + pyval"

definition identity_fn :: pyfun where
  "identity_fn df = Inr df"

section \<open>The environment of the accessor\<close>

text \<open>
  The option registry of pandas maps option names to values. Standard output and the
  plotting surface are a log of events: a printed line, a value rendered under a label,
  or an effect of a method of the host library (a histogram, a written file).
\<close>

type_synonym registry = "pystr \<Rightarrow> pyval option"

datatype event =
    Print pystr
  | Display "pystr option" pyval
  | Effect pystr "pyval list" kwargs pyval

text \<open>
  The parts of pandas, matplotlib and the interpreter that the accessor calls and whose
  code is outside the package are parameters of the model:
  \<^item> \<open>py_call name args kwargs receiver\<close>: a method or attribute of an object the model
    does not interpret itself;
  \<^item> \<open>py_eval\<close>: \<open>eval(expr, {}, {"df": data})\<close>;
  \<^item> \<open>py_truth\<close>, \<open>py_str_other\<close>, \<open>py_repr_other\<close>: truth value, \<open>str\<close> and \<open>repr\<close>
    of the values the model does not format itself;
  \<^item> \<open>pd_select_options\<close>, \<open>pd_set_option\<close>: \<open>pd._config.config._select_options\<close> and
    \<open>pd.set_option\<close>;
  \<^item> \<open>pd_key_error_message\<close>: the message of the \<open>KeyError\<close> pandas raises for a
    missing column;
  \<^item> the tables of the package's own modules that are not part of the accessor file:
    the default options, the reading of the emoji switch, the set of decorative
    symbols, the decorations of pass and fail messages, and the texts of the timer.
\<close>

record host =
  py_call :: "pystr \<Rightarrow> pyval list \<Rightarrow> kwargs \<Rightarrow> pyval \<Rightarrow> error + pyval"
  py_eval :: "pystr \<Rightarrow> pyval \<Rightarrow> error + pyval"
  py_truth :: "pyval \<Rightarrow> error + bool"
  py_str_other :: "pyval \<Rightarrow> pystr"
  py_repr_other :: "pystr \<Rightarrow> pystr"
  pd_select_options :: "pystr \<Rightarrow> registry \<Rightarrow> pystr list"
  pd_set_option :: "pystr \<Rightarrow> pyval \<Rightarrow> registry \<Rightarrow> error + registry"
  pd_key_error_message :: "frame \<Rightarrow> subset \<Rightarrow> pystr"
  default_options :: registry
  use_emojis :: "registry \<Rightarrow> bool"
  is_emoji :: "nat \<Rightarrow> bool"
  fail_decoration :: "registry \<Rightarrow> pystr \<times> pystr"
  success_decoration :: "registry \<Rightarrow> pystr \<times> pystr"
  timer_started_text :: pystr
  timer_unset_error :: error
  format_elapsed :: "pystr \<Rightarrow> int \<Rightarrow> pystr"

text \<open>
  The state: the objects by identity (\<open>heap\<close>), the option registry, the output log, the
  start instant of the timer and the process clock. The accessor object holds the
  reference it was constructed with (\<open>self._obj\<close>).
\<close>

type_synonym ref = nat

record state =
  heap :: "ref \<Rightarrow> frame"
  options :: registry
  out :: "event list"
  timer :: "int option"
  clock :: int

record DataFrameVet =
  obj :: ref

definition py_print :: "pystr \<Rightarrow> state \<Rightarrow> state" where
  "py_print line s = s\<lparr>out := out s @ [Print line]\<rparr>"

definition log_event :: "event \<Rightarrow> state \<Rightarrow> state" where
  "log_event e s = s\<lparr>out := out s @ [e]\<rparr>"

subsection \<open>Values: truth, type names, formatting\<close>

text \<open>
  \<open>bool(v)\<close>, as \<open>if v\<close> and \<open>not v\<close> compute it. pandas refuses it for a DataFrame and
  for a Series.
\<close>

definition ambiguous_truth :: "pystr \<Rightarrow> error" where
  "ambiguous_truth kind =
     Raise ValueError
       (lit ''The truth value of a '' @ kind
        @ lit '' is ambiguous. Use a.empty, a.bool(), a.item(), a.any() or a.all().'')"

fun truth :: "host \<Rightarrow> pyval \<Rightarrow> error + bool" where
  "truth H VNone = Inr False"
| "truth H (VBool b) = Inr b"
| "truth H (VInt i) = Inr (i \<noteq> 0)"
| "truth H (VStr t) = Inr (t \<noteq> [])"
| "truth H (VList xs) = Inr (xs \<noteq> [])"
| "truth H (VTuple xs) = Inr (xs \<noteq> [])"
| "truth H (VFrame df) = Inl (ambiguous_truth (lit ''DataFrame''))"
| "truth H (VSeries sr) = Inl (ambiguous_truth (lit ''Series''))"
| "truth H (VObj c i) = py_truth H (VObj c i)"

fun class_name :: "pyval \<Rightarrow> pystr" where
  "class_name VNone = lit ''NoneType''"
| "class_name (VBool b) = lit ''bool''"
| "class_name (VInt i) = lit ''int''"
| "class_name (VStr t) = lit ''str''"
| "class_name (VList xs) = lit ''list''"
| "class_name (VTuple xs) = lit ''tuple''"
| "class_name (VFrame df) = lit ''pandas.core.frame.DataFrame''"
| "class_name (VSeries sr) = lit ''pandas.core.series.Series''"
| "class_name (VObj c i) = c"

text \<open>What \<open>f"{type(v)}"\<close> inserts.\<close>

definition str_type :: "pyval \<Rightarrow> pystr" where
  "str_type v = lit ''<class '' @ [39] @ class_name v @ [39] @ lit ''>''"

text \<open>What \<open>f"{v}"\<close> inserts for a computed value (an integer, or left to the host).\<close>

definition str_val :: "host \<Rightarrow> pyval \<Rightarrow> pystr" where
  "str_val H v = (case v of VInt i \<Rightarrow> str_int i | VStr t \<Rightarrow> t | _ \<Rightarrow> py_str_other H v)"

subsection \<open>The pandas operations the reports are built from\<close>

text \<open>
  Column selection \<open>df[subset]\<close>. A list of names gives the DataFrame of the columns
  with these names, in the order of the list; a name that several columns carry selects
  all of them. One name gives the column as a Series when exactly one column carries it,
  and the DataFrame of all columns of that name otherwise. A missing name raises
  \<open>KeyError\<close>.
\<close>

definition cell_at :: "cell list \<Rightarrow> nat \<Rightarrow> cell" where
  "cell_at r j = (if j < length r then r ! j else Null)"

definition index_of :: "pystr \<Rightarrow> pystr list \<Rightarrow> nat" where
  "index_of c cs = length (takeWhile (\<lambda>x. x \<noteq> c) cs)"

definition positional :: "cell list \<Rightarrow> series" where
  "positional vs = Series (map (\<lambda>(i, v). (Pos i, v)) (enumerate 0 vs))"

definition frame_column :: "frame \<Rightarrow> pystr \<Rightarrow> series" where
  "frame_column df c = positional (map (\<lambda>r. cell_at r (index_of c (cols df))) (rws df))"

text \<open>The positions of the columns named \<open>c\<close>.\<close>

definition positions :: "pystr \<Rightarrow> pystr list \<Rightarrow> nat list" where
  "positions c cs = map fst (filter (\<lambda>(j, x). x = c) (enumerate 0 cs))"

definition narrow :: "frame \<Rightarrow> pystr list \<Rightarrow> frame" where
  "narrow df cs =
     Frame (concat (map (\<lambda>c. map (\<lambda>j. c) (positions c (cols df))) cs))
       (map (\<lambda>r. concat (map (\<lambda>c. map (cell_at r) (positions c (cols df))) cs)) (rws df))"

fun frame_getitem :: "host \<Rightarrow> frame \<Rightarrow> subset \<Rightarrow> error + pyval" where
  "frame_getitem H df (SName c) =
     (if c \<in> set (cols df) then
        if count_list (cols df) c = 1 then Inr (VSeries (frame_column df c))
        else Inr (VFrame (narrow df [c]))
      else Inl (Raise KeyError (pd_key_error_message H df (SName c))))"
| "frame_getitem H df (SCols cs) =
     (if list_all (\<lambda>c. c \<in> set (cols df)) cs then Inr (VFrame (narrow df cs))
      else Inl (Raise KeyError (pd_key_error_message H df (SCols cs))))"
| "frame_getitem H df SNone = Inl (Raise KeyError (pd_key_error_message H df SNone))"

definition getitem :: "host \<Rightarrow> pyval \<Rightarrow> subset \<Rightarrow> error + pyval" where
  "getitem H data sub =
     (case data of
        VFrame df \<Rightarrow> frame_getitem H df sub
      | _ \<Rightarrow> py_call H (lit ''__getitem__'') [subset_val sub] [] data)"

text \<open>\<open>isna()\<close>: the same shape, each cell replaced by whether it is null.\<close>

definition cell_isna :: "cell \<Rightarrow> cell" where
  "cell_isna c = B (c = Null)"

definition isna :: "host \<Rightarrow> pyval \<Rightarrow> error + pyval" where
  "isna H data =
     (case data of
        VFrame df \<Rightarrow> Inr (VFrame (Frame (cols df) (map (map cell_isna) (rws df))))
      | VSeries sr \<Rightarrow> Inr (VSeries (Series (map (\<lambda>(l, c). (l, cell_isna c)) (items sr))))
      | _ \<Rightarrow> py_call H (lit ''isna'') [] [] data)"

text \<open>\<open>any(axis=1)\<close> of a DataFrame: per row, whether some cell is true.\<close>

fun cell_true :: "cell \<Rightarrow> bool" where
  "cell_true Null = False"
| "cell_true (I n) = (n \<noteq> 0)"
| "cell_true (B b) = b"

definition any_axis1 :: "host \<Rightarrow> pyval \<Rightarrow> error + pyval" where
  "any_axis1 H data =
     (case data of
        VFrame df \<Rightarrow> Inr (VSeries (positional (map (\<lambda>r. B (list_ex cell_true r)) (rws df))))
      | _ \<Rightarrow> py_call H (lit ''any'') [] [(lit ''axis'', VInt 1)] data)"

text \<open>
  \<open>sum()\<close>: of a Series the total of its cells (a true cell counts 1, a null cell 0), of
  a DataFrame the Series of the totals of its columns, labelled by the column names.
\<close>

fun cell_num :: "cell \<Rightarrow> int" where
  "cell_num Null = 0"
| "cell_num (I n) = n"
| "cell_num (B b) = (if b then 1 else 0)"

definition column_total :: "frame \<Rightarrow> nat \<Rightarrow> int" where
  "column_total df j = sum_list (map (\<lambda>r. cell_num (cell_at r j)) (rws df))"

definition sum_values :: "host \<Rightarrow> pyval \<Rightarrow> error + pyval" where
  "sum_values H data =
     (case data of
        VFrame df \<Rightarrow>
          Inr (VSeries (Series (map (\<lambda>(j, c). (Name c, I (column_total df j))) (enumerate 0 (cols df)))))
      | VSeries sr \<Rightarrow> Inr (VInt (sum_list (map (\<lambda>(l, c). cell_num c) (items sr))))
      | _ \<Rightarrow> py_call H (lit ''sum'') [] [] data)"

text \<open>
  \<open>duplicated(keep=...)\<close>. Rows are compared cell by cell with Python's equality, under
  which \<open>True\<close> equals 1 and \<open>False\<close> equals 0, and null equals null: \<open>cell_key\<close> gives
  equal cells the same key. With \<open>keep='first'\<close> (the default) every row equal to an
  earlier row is marked, with \<open>keep='last'\<close> every row equal to a later row, with
  \<open>keep=False\<close> every row equal to another row.
\<close>

fun cell_key :: "cell \<Rightarrow> cell" where
  "cell_key (B b) = I (if b then 1 else 0)"
| "cell_key c = c"


fun dup_marks :: "'a list \<Rightarrow> 'a list \<Rightarrow> bool list" where
  "dup_marks seen [] = []"
| "dup_marks seen (r # rs) = (r \<in> set seen) # dup_marks (r # seen) rs"

datatype keep = KeepFirst | KeepLast | KeepFalse

fun keep_marks :: "keep \<Rightarrow> 'a list \<Rightarrow> bool list" where
  "keep_marks KeepFirst rows = dup_marks [] rows"
| "keep_marks KeepLast rows = rev (dup_marks [] (rev rows))"
| "keep_marks KeepFalse rows = map (\<lambda>r. 1 < count_list rows r) rows"

text \<open>
  The keyword arguments that \<open>ndups\<close> passes on: none, or \<open>keep\<close> with one of its three
  values. (\<open>subset\<close> is a parameter of \<open>ndups\<close> itself and never reaches \<open>duplicated\<close>.)
  Anything else is left to the host.
\<close>

fun keep_of :: "kwargs \<Rightarrow> keep option" where
  "keep_of [] = Some KeepFirst"
| "keep_of [(k, v)] =
     (if k = lit ''keep'' then
        if v = VStr (lit ''first'') then Some KeepFirst
        else if v = VStr (lit ''last'') then Some KeepLast
        else if v = VBool False then Some KeepFalse
        else None
      else None)"
| "keep_of kw = None"

definition duplicated :: "host \<Rightarrow> kwargs \<Rightarrow> pyval \<Rightarrow> error + pyval" where
  "duplicated H kw data =
     (case keep_of kw of
        None \<Rightarrow> py_call H (lit ''duplicated'') [] kw data
      | Some k \<Rightarrow>
          (case data of
             VFrame df \<Rightarrow>
               Inr (VSeries (positional (map B (keep_marks k (map (map cell_key) (rws df))))))
           | VSeries sr \<Rightarrow>
               Inr (VSeries (positional (map B (keep_marks k (map cell_key (map snd (items sr)))))))
           | _ \<Rightarrow> py_call H (lit ''duplicated'') [] kw data))"

text \<open>\<open>shape\<close> and indexing into it.\<close>

definition shape_of :: "host \<Rightarrow> pyval \<Rightarrow> error + pyval" where
  "shape_of H data =
     (case data of
        VFrame df \<Rightarrow> Inr (VTuple [VInt (int (length (rws df))), VInt (int (length (cols df)))])
      | VSeries sr \<Rightarrow> Inr (VTuple [VInt (int (length (items sr)))])
      | _ \<Rightarrow> py_call H (lit ''shape'') [] [] data)"

definition item_at :: "host \<Rightarrow> nat \<Rightarrow> pyval \<Rightarrow> error + pyval" where
  "item_at H k v =
     (case v of
        VTuple xs \<Rightarrow>
          if k < length xs then Inr (xs ! k)
          else Inl (Raise IndexError (lit ''tuple index out of range''))
      | _ \<Rightarrow> py_call H (lit ''__getitem__'') [VInt (int k)] [] v)"

section \<open>Helper modules of the package\<close>

text \<open>
  Modelled from the spec: \<open>_filter_emojis\<close> of the module \<open>utils\<close>, whose code is not in
  the accessor file. The spec: "strip decorative symbols when a plain display mode is
  configured". Which code points are decorative and how the switch is read from the
  registry are the parameters \<open>is_emoji\<close> and \<open>use_emojis\<close>.
\<close>

definition filter_emojis :: "host \<Rightarrow> registry \<Rightarrow> pystr \<Rightarrow> pystr" where
  "filter_emojis H opts t = (if use_emojis H opts then t else filter (\<lambda>c. \<not> is_emoji H c) t)"

text \<open>
  Modelled from the spec: \<open>_format_fail_message\<close> of \<open>utils\<close>, whose code is not in the
  accessor file: "wrap a message with a success/failure decoration". The decoration is a
  pair of texts put before and after the message (the parameter \<open>fail_decoration\<close>).
\<close>

definition format_fail_message :: "host \<Rightarrow> registry \<Rightarrow> pystr \<Rightarrow> pystr" where
  "format_fail_message H opts message =
     fst (fail_decoration H opts) @ message @ snd (fail_decoration H opts)"

text \<open>
  Modelled from the spec: \<open>_format_success_message\<close> of \<open>utils\<close>, the same wrapping with
  the decoration of a success (the parameter \<open>success_decoration\<close>).
\<close>

definition format_success_message :: "host \<Rightarrow> registry \<Rightarrow> pystr \<Rightarrow> pystr" where
  "format_success_message H opts message =
     fst (success_decoration H opts) @ message @ snd (success_decoration H opts)"

text \<open>
  Modelled from the spec: \<open>_lambda_to_string\<close> of \<open>utils\<close>: "turn a callable into a
  readable string label". A callable is its label and its behaviour; a condition is a
  callable or any other value.
\<close>

datatype condition = Callable pystr pyfun | NotCallable pyval

text \<open>
  Modelled from the spec: \<open>_initialize_format_options\<close> of the module \<open>options\<close>: the
  cosmetic configuration is "initialized once at load, resettable on demand". Every
  option of the default table gets its default value.
\<close>

definition initialize_format_options :: "host \<Rightarrow> registry \<Rightarrow> registry" where
  "initialize_format_options H opts =
     (\<lambda>k. case default_options H k of Some v \<Rightarrow> Some v | None \<Rightarrow> opts k)"

text \<open>
  Modelled from the spec (section 4.1): \<open>_modify_data\<close> of the module \<open>run_checks\<close>. "If
  subset is provided, narrow data to those column(s) first (fails with KeyError if a
  named column does not exist). Apply transform to the (possibly narrowed) result."
  A subset is provided when it is truthy, as in \<open>assert_data\<close>.
\<close>

definition modify_data :: "host \<Rightarrow> pyval \<Rightarrow> pyfun \<Rightarrow> subset \<Rightarrow> error + pyval" where
  "modify_data H data fn sub =
     then_do (if subset_truthy sub then getitem H data sub else Inr data) fn"

text \<open>
  Modelled from the spec (section 4.2): \<open>_check_data\<close> of \<open>run_checks\<close>. It resolves the
  data, applies the check function and renders the result, "preceded by the (possibly
  symbol-filtered) check_name label".
\<close>

definition check_data ::
  "host \<Rightarrow> pyval \<Rightarrow> pyfun \<Rightarrow> pyfun \<Rightarrow> subset \<Rightarrow> pystr option \<Rightarrow> state \<Rightarrow> (error + unit) \<times> state"
where
  "check_data H data check_fn modify_fn sub check_name s =
     (case then_do (modify_data H data modify_fn sub) check_fn of
        Inl e \<Rightarrow> (Inl e, s)
      | Inr result \<Rightarrow>
          (Inr (), log_event (Display (map_option (filter_emojis H (options s)) check_name) result) s))"

text \<open>
  Modelled from the spec (section 4.6): \<open>start_timer\<close> of the module \<open>timer\<close>, whose code
  is not in the accessor file. It "records current instant"; what it prints when verbose
  is the parameter \<open>timer_started_text\<close>.
\<close>

definition timer_start_timer :: "host \<Rightarrow> bool \<Rightarrow> state \<Rightarrow> state" where
  "timer_start_timer H verbose s =
     (let s1 = s\<lparr>timer := Some (clock s)\<rparr>
      in if verbose then py_print (timer_started_text H) s1 else s1)"

text \<open>
  Modelled from the spec (section 4.6): \<open>print_time_elapsed\<close> of the module \<open>timer\<close>. "If
  unset, fails; else computes delta from recorded instant to now, formats in the
  requested unit". The error and the formatting are the parameters \<open>timer_unset_error\<close>
  and \<open>format_elapsed\<close>.
\<close>

definition timer_print_time_elapsed ::
  "host \<Rightarrow> pystr \<Rightarrow> pystr \<Rightarrow> state \<Rightarrow> (error + unit) \<times> state"
where
  "timer_print_time_elapsed H check_name units s =
     (case timer s of
        None \<Rightarrow> (Inl (timer_unset_error H), s)
      | Some t0 \<Rightarrow>
          (Inr (), py_print (filter_emojis H (options s) check_name @ lit '': ''
                             @ format_elapsed H units (clock s - t0)) s))"

section \<open>The accessor\<close>

text \<open>
  Every method takes the host, the accessor object, its arguments and the state, and
  returns the reference it returns in Python, or the exception it raises, with the new
  state. \<open>returning\<close> is the final \<open>return self._obj\<close>.
\<close>

type_synonym 'a result = "(error + 'a) \<times> state"

definition returning :: "DataFrameVet \<Rightarrow> unit result \<Rightarrow> ref result" where
  "returning self r = (case fst r of Inl e \<Rightarrow> (Inl e, snd r) | Inr u \<Rightarrow> (Inr (obj self), snd r))"

definition self_obj :: "DataFrameVet \<Rightarrow> state \<Rightarrow> pyval" where
  "self_obj self s = VFrame (heap s (obj self))"

subsection \<open>assert_data\<close>

text \<open>The default arguments of \<open>assert_data\<close>.\<close>

definition default_exception_class :: exn_class where
  "default_exception_class = DataError"

definition default_pass_message :: pystr where
  "default_pass_message = [32, 10004, 65039] @ lit '' Assertion passed ''"

definition default_fail_message :: pystr where
  "default_fail_message = [32, 12584] @ lit '' Assertion failed ''"

definition condition_type_error :: "pyval \<Rightarrow> error" where
  "condition_type_error v =
     Raise TypeError (lit ''Argument '' @ [96] @ lit ''condition'' @ [96]
                      @ lit '' is of unexpected type '' @ str_type v)"

text \<open>
  Lines 41 to 47: the result of the condition and its text. A callable is applied to the
  data, a string is evaluated with the data bound to \<open>df\<close>, anything else is a
  \<open>TypeError\<close>.
\<close>

fun evaluate_condition :: "host \<Rightarrow> condition \<Rightarrow> pyval \<Rightarrow> error + (pyval \<times> pystr)" where
  "evaluate_condition H (Callable label f) data =
     then_do (f data) (\<lambda>result. Inr (result, label))"
| "evaluate_condition H (NotCallable (VStr expr)) data =
     then_do (py_eval H expr data) (\<lambda>result. Inr (result, expr))"
| "evaluate_condition H (NotCallable v) data = Inl (condition_type_error v)"

text \<open>Line 40: \<open>data = self._obj[subset] if subset else self._obj\<close>.\<close>

definition select_data :: "host \<Rightarrow> DataFrameVet \<Rightarrow> subset \<Rightarrow> state \<Rightarrow> error + pyval" where
  "select_data H self sub s =
     (if subset_truthy sub then getitem H (self_obj self s) sub else Inr (self_obj self s))"

fun is_str :: "pyval \<Rightarrow> bool" where
  "is_str (VStr t) = True"
| "is_str v = False"

definition assert_data ::
  "host \<Rightarrow> DataFrameVet \<Rightarrow> condition \<Rightarrow> subset \<Rightarrow> exn_class \<Rightarrow> pystr \<Rightarrow> pystr \<Rightarrow> bool \<Rightarrow> bool
     \<Rightarrow> state \<Rightarrow> ref result"
where
  "assert_data H self condition sub exception_class pass_message fail_message
       raise_exception verbose s =
     (case select_data H self sub s of
        Inl e \<Rightarrow> (Inl e, s)
      | Inr data \<Rightarrow>
          (case evaluate_condition H condition data of
             Inl e \<Rightarrow> (Inl e, s)
           | Inr (result, condition_str) \<Rightarrow>
               (case truth H result of
                  Inl e \<Rightarrow> (Inl e, s)
                | Inr t \<Rightarrow>
                    if \<not> t \<and> raise_exception then
                      (Inl (Raise exception_class (fail_message @ lit '': '' @ condition_str)), s)
                    else
                      let s1 = (if \<not> t then
                                  py_print (format_fail_message H (options s) fail_message
                                            @ lit '': '' @ condition_str) s
                                else s);
                          s2 = (if verbose then
                                  py_print (format_success_message H (options s1) pass_message
                                            @ lit '': '' @ condition_str) s1
                                else s1)
                      in (Inr (obj self), s2))))"

subsection \<open>Configuration: set_format and reset_format\<close>

definition set_format_error :: "host \<Rightarrow> registry \<Rightarrow> pystr \<Rightarrow> error" where
  "set_format_error H opts vet_option =
     Raise AttributeError
       (lit ''No Pandas Vet option for '' @ vet_option @ lit ''. Available options: ''
        @ str_list (py_repr_other H) (pd_select_options H (lit ''vet'') opts))"

text \<open>Line 18: the fully qualified option name.\<close>

definition vet_option_of :: "pystr \<Rightarrow> pystr" where
  "vet_option_of arg = (if startswith arg (lit ''vet.'') then arg else lit ''vet.'' @ arg)"

text \<open>
  The loop over \<open>kwargs.items()\<close>. An exception leaves the loop; the options set by the
  arguments before it stay set. When \<open>pd.set_option\<close> itself raises, it has not changed
  the registry.
\<close>

fun set_format_loop :: "host \<Rightarrow> kwargs \<Rightarrow> registry \<Rightarrow> error option \<times> registry" where
  "set_format_loop H [] opts = (None, opts)"
| "set_format_loop H ((arg, v) # rest) opts =
     (let vet_option = vet_option_of arg
      in if vet_option \<in> set (pd_select_options H (lit ''vet'') opts) then
           (case pd_set_option H vet_option v opts of
              Inl e \<Rightarrow> (Some e, opts)
            | Inr opts' \<Rightarrow> set_format_loop H rest opts')
         else (Some (set_format_error H opts vet_option), opts))"

definition set_format :: "host \<Rightarrow> DataFrameVet \<Rightarrow> kwargs \<Rightarrow> state \<Rightarrow> ref result" where
  "set_format H self kw s =
     (case set_format_loop H kw (options s) of
        (None, opts') \<Rightarrow> (Inr (obj self), s\<lparr>options := opts'\<rparr>)
      | (Some e, opts') \<Rightarrow> (Inl e, s\<lparr>options := opts'\<rparr>))"

definition reset_format :: "host \<Rightarrow> DataFrameVet \<Rightarrow> state \<Rightarrow> ref result" where
  "reset_format H self s =
     (Inr (obj self), s\<lparr>options := initialize_format_options H (options s)\<rparr>)"

subsection \<open>Reports built on the dispatcher\<close>

text \<open>A label given by the caller, or else the default label.\<close>

definition label_or :: "pystr option \<Rightarrow> pystr \<Rightarrow> pystr option" where
  "label_or check_name dflt = (if name_truthy check_name then check_name else Some dflt)"

definition describe ::
  "host \<Rightarrow> DataFrameVet \<Rightarrow> pyfun \<Rightarrow> subset \<Rightarrow> pystr option \<Rightarrow> kwargs \<Rightarrow> state \<Rightarrow> ref result"
where
  "describe H self fn sub check_name kw s =
     returning self
       (check_data H (self_obj self s) (py_call H (lit ''describe'') [] kw) fn sub check_name s)"

definition columns_tolist :: "host \<Rightarrow> pyfun" where
  "columns_tolist H df =
     (case df of
        VFrame f \<Rightarrow> Inr (VList (map VStr (cols f)))
      | _ \<Rightarrow> then_do (py_call H (lit ''columns'') [] [] df) (py_call H (lit ''tolist'') [] []))"

definition columns ::
  "host \<Rightarrow> DataFrameVet \<Rightarrow> pyfun \<Rightarrow> subset \<Rightarrow> pystr option \<Rightarrow> state \<Rightarrow> ref result"
where
  "columns H self fn sub check_name s =
     returning self (check_data H (self_obj self s) (columns_tolist H) fn sub check_name s)"

definition dtypes ::
  "host \<Rightarrow> DataFrameVet \<Rightarrow> pyfun \<Rightarrow> subset \<Rightarrow> pystr option \<Rightarrow> state \<Rightarrow> ref result"
where
  "dtypes H self fn sub check_name s =
     returning self
       (check_data H (self_obj self s) (py_call H (lit ''dtypes'') [] []) fn sub check_name s)"

definition evaluate ::
  "host \<Rightarrow> DataFrameVet \<Rightarrow> pyfun \<Rightarrow> subset \<Rightarrow> pystr option \<Rightarrow> state \<Rightarrow> ref result"
where
  "evaluate H self fn sub check_name s =
     returning self (check_data H (self_obj self s) identity_fn fn sub check_name s)"

definition head ::
  "host \<Rightarrow> DataFrameVet \<Rightarrow> int \<Rightarrow> pyfun \<Rightarrow> subset \<Rightarrow> pystr option \<Rightarrow> state \<Rightarrow> ref result"
where
  "head H self n fn sub check_name s =
     returning self
       (check_data H (self_obj self s) (py_call H (lit ''head'') [VInt n] []) fn sub
          (label_or check_name ([11014, 65039] @ lit '' First '' @ str_int n @ lit '' rows'')) s)"

definition tail ::
  "host \<Rightarrow> DataFrameVet \<Rightarrow> int \<Rightarrow> pyfun \<Rightarrow> subset \<Rightarrow> pystr option \<Rightarrow> state \<Rightarrow> ref result"
where
  "tail H self n fn sub check_name s =
     returning self
       (check_data H (self_obj self s) (py_call H (lit ''tail'') [VInt n] []) fn sub
          (label_or check_name ([11015, 65039] @ lit '' Last '' @ str_int n @ lit '' rows'')) s)"

definition memory_usage ::
  "host \<Rightarrow> DataFrameVet \<Rightarrow> pyfun \<Rightarrow> subset \<Rightarrow> pystr option \<Rightarrow> kwargs \<Rightarrow> state \<Rightarrow> ref result"
where
  "memory_usage H self fn sub check_name kw s =
     returning self
       (check_data H (self_obj self s) (py_call H (lit ''memory_usage'') [] kw) fn sub check_name s)"

definition ncols ::
  "host \<Rightarrow> DataFrameVet \<Rightarrow> pyfun \<Rightarrow> subset \<Rightarrow> pystr option \<Rightarrow> state \<Rightarrow> ref result"
where
  "ncols H self fn sub check_name s =
     returning self
       (check_data H (self_obj self s) (\<lambda>df. then_do (shape_of H df) (item_at H 1)) fn sub
          check_name s)"

definition nrows ::
  "host \<Rightarrow> DataFrameVet \<Rightarrow> pyfun \<Rightarrow> subset \<Rightarrow> pystr option \<Rightarrow> state \<Rightarrow> ref result"
where
  "nrows H self fn sub check_name s =
     returning self
       (check_data H (self_obj self s) (\<lambda>df. then_do (shape_of H df) (item_at H 0)) fn sub
          check_name s)"

definition shape ::
  "host \<Rightarrow> DataFrameVet \<Rightarrow> pyfun \<Rightarrow> subset \<Rightarrow> pystr option \<Rightarrow> state \<Rightarrow> ref result"
where
  "shape H self fn sub check_name s =
     returning self (check_data H (self_obj self s) (shape_of H) fn sub check_name s)"

definition nunique ::
  "host \<Rightarrow> DataFrameVet \<Rightarrow> subset \<Rightarrow> pyfun \<Rightarrow> pystr option \<Rightarrow> kwargs \<Rightarrow> state \<Rightarrow> ref result"
where
  "nunique H self column fn check_name kw s =
     returning self
       (check_data H (self_obj self s) (py_call H (lit ''nunique'') [] kw) fn column
          (label_or check_name
             ([127775] @ lit '' Unique values in '' @ str_subset (py_repr_other H) column)) s)"

definition unique ::
  "host \<Rightarrow> DataFrameVet \<Rightarrow> subset \<Rightarrow> pyfun \<Rightarrow> pystr option \<Rightarrow> state \<Rightarrow> ref result"
where
  "unique H self column fn check_name s =
     returning self
       (check_data H (self_obj self s)
          (\<lambda>sr. then_do (py_call H (lit ''unique'') [] [] sr) (py_call H (lit ''tolist'') [] []))
          fn column
          (label_or check_name
             ([127775] @ lit '' Unique values of '' @ str_subset (py_repr_other H) column)) s)"

definition value_counts ::
  "host \<Rightarrow> DataFrameVet \<Rightarrow> subset \<Rightarrow> int \<Rightarrow> pyfun \<Rightarrow> pystr option \<Rightarrow> kwargs \<Rightarrow> state
     \<Rightarrow> ref result"
where
  "value_counts H self column max_rows fn check_name kw s =
     returning self
       (check_data H (self_obj self s)
          (\<lambda>df. then_do (py_call H (lit ''value_counts'') [] kw df)
                   (py_call H (lit ''head'') [VInt max_rows] []))
          fn column
          (label_or check_name
             (if max_rows \<noteq> 0 then
                [129518] @ lit '' Value counts, first '' @ str_int max_rows @ lit '' values''
              else [129518] @ lit '' Value counts'')) s)"

text \<open>
  \<open>print\<close> shows a text when one is given, and otherwise the first \<open>max_rows\<close> rows of the
  data.
\<close>

definition print ::
  "host \<Rightarrow> DataFrameVet \<Rightarrow> pystr option \<Rightarrow> pyfun \<Rightarrow> subset \<Rightarrow> pystr option \<Rightarrow> int \<Rightarrow> state
     \<Rightarrow> ref result"
where
  "print H self text fn sub check_name max_rows s =
     returning self
       (check_data H
          (if name_truthy text then (case text of Some t \<Rightarrow> VStr t | None \<Rightarrow> VNone)
           else self_obj self s)
          (\<lambda>data. if name_truthy text then Inr data
                   else py_call H (lit ''head'') [VInt max_rows] [] data)
          fn sub check_name s)"

subsection \<open>ndups\<close>

text \<open>The fixed part of the label \<open>f'... Rows with duplication in {subset}'\<close>.\<close>

definition dup_prefix :: pystr where
  "dup_prefix = [128111, 8205, 9794, 65039] @ lit '' Rows with duplication in ''"

definition ndups_label :: "host \<Rightarrow> subset \<Rightarrow> pystr option \<Rightarrow> pystr option" where
  "ndups_label H sub check_name =
     (if name_truthy check_name then check_name
      else if subset_truthy sub then Some (dup_prefix @ str_subset (py_repr_other H) sub)
      else Some ([128111, 8205, 9794, 65039] @ lit '' Duplicated rows''))"

definition ndups ::
  "host \<Rightarrow> DataFrameVet \<Rightarrow> pyfun \<Rightarrow> subset \<Rightarrow> pystr option \<Rightarrow> kwargs \<Rightarrow> state \<Rightarrow> ref result"
where
  "ndups H self fn sub check_name kw s =
     returning self
       (check_data H (self_obj self s) (\<lambda>df. then_do (duplicated H kw df) (sum_values H)) fn sub
          (ndups_label H sub check_name) s)"

subsection \<open>nnulls\<close>

fun is_frame :: "pyval \<Rightarrow> bool" where
  "is_frame (VFrame df) = True"
| "is_frame v = False"

fun is_pandas :: "pyval \<Rightarrow> bool" where
  "is_pandas (VFrame df) = True"
| "is_pandas (VSeries sr) = True"
| "is_pandas v = False"

fun name_text :: "pystr option \<Rightarrow> pystr" where
  "name_text None = []"
| "name_text (Some n) = n"

text \<open>Line 163: the count that \<open>nnulls\<close> reports.\<close>

definition na_counts_of :: "host \<Rightarrow> pyval \<Rightarrow> bool \<Rightarrow> error + pyval" where
  "na_counts_of H data by_column =
     (if is_frame data \<and> \<not> by_column then
        then_do (then_do (isna H data) (any_axis1 H)) (sum_values H)
      else then_do (isna H data) (sum_values H))"

definition nnulls_label :: "host \<Rightarrow> subset \<Rightarrow> pystr \<Rightarrow> pystr" where
  "nnulls_label H sub ending =
     (if subset_truthy sub then
        [128123] @ lit '' Rows with NaNs in '' @ str_subset (py_repr_other H) sub @ ending
      else [128123] @ lit '' Rows with NaNs'' @ ending)"

definition nnulls ::
  "host \<Rightarrow> DataFrameVet \<Rightarrow> pyfun \<Rightarrow> subset \<Rightarrow> bool \<Rightarrow> pystr option \<Rightarrow> state \<Rightarrow> ref result"
where
  "nnulls H self fn sub by_column check_name s =
     (let s1 = py_print [] s
      in case modify_data H (self_obj self s1) fn sub of
           Inl e \<Rightarrow> (Inl e, s1)
         | Inr data \<Rightarrow>
             (case na_counts_of H data by_column of
                Inl e \<Rightarrow> (Inl e, s1)
              | Inr na_counts \<Rightarrow>
                  if \<not> name_truthy check_name then
                    if is_pandas na_counts then
                      returning self
                        (check_data H na_counts identity_fn identity_fn SNone
                           (Some (nnulls_label H sub [])) s1)
                    else
                      (case then_do (shape_of H data) (item_at H 0) of
                         Inl e \<Rightarrow> (Inl e, s1)
                       | Inr n \<Rightarrow>
                           (Inr (obj self),
                            py_print (filter_emojis H (options s1) (nnulls_label H sub (lit '': ''))
                                      @ str_val H na_counts @ lit '' out of '' @ str_val H n) s1))
                  else
                    (Inr (obj self),
                     py_print (filter_emojis H (options s1) (name_text check_name) @ lit '': ''
                               @ str_val H na_counts) s1)))"

subsection \<open>Plots and info\<close>

text \<open>
  A method of the host library that is called for its effect: when it returns, the
  effect is on the log; when it raises, the exception propagates.
\<close>

definition call_effect ::
  "host \<Rightarrow> pystr \<Rightarrow> pyval list \<Rightarrow> kwargs \<Rightarrow> pyval \<Rightarrow> state \<Rightarrow> unit result"
where
  "call_effect H name args kw receiver s =
     (case py_call H name args kw receiver of
        Inl e \<Rightarrow> (Inl e, s)
      | Inr r \<Rightarrow> (Inr (), log_event (Effect name args kw receiver) s))"

definition plt :: pyval where
  "plt = VObj (lit ''matplotlib.pyplot'') 0"

fun py_len :: "subset \<Rightarrow> error + nat" where
  "py_len SNone =
     Inl (Raise TypeError (lit ''object of type '' @ [39] @ lit ''NoneType'' @ [39]
                           @ lit '' has no len()''))"
| "py_len (SName c) = Inr (length c)"
| "py_len (SCols cs) = Inr (length cs)"

definition hist_title :: "subset \<Rightarrow> pystr option \<Rightarrow> error + pystr" where
  "hist_title sub check_name =
     (if name_truthy check_name then Inr (name_text check_name)
      else then_do (py_len sub)
             (\<lambda>k. Inr (if k = 1 then lit ''Distribution'' else lit ''Distributions'')))"

definition hist ::
  "host \<Rightarrow> DataFrameVet \<Rightarrow> pyfun \<Rightarrow> subset \<Rightarrow> pystr option \<Rightarrow> kwargs \<Rightarrow> state \<Rightarrow> ref result"
where
  "hist H self fn sub check_name kw s =
     (case modify_data H (self_obj self s) fn sub of
        Inl e \<Rightarrow> (Inl e, s)
      | Inr data \<Rightarrow>
          (case call_effect H (lit ''hist'') [] kw data s of
             (Inl e, s1) \<Rightarrow> (Inl e, s1)
           | (Inr u, s1) \<Rightarrow>
               (case hist_title sub check_name of
                  Inl e \<Rightarrow> (Inl e, s1)
                | Inr title \<Rightarrow>
                    returning self (call_effect H (lit ''suptitle'') [VStr title] [] plt s1))))"

definition info ::
  "host \<Rightarrow> DataFrameVet \<Rightarrow> pyfun \<Rightarrow> subset \<Rightarrow> pystr \<Rightarrow> kwargs \<Rightarrow> state \<Rightarrow> ref result"
where
  "info H self fn sub check_name kw s =
     (let s1 = py_print [] s;
          s2 = py_print (filter_emojis H (options s1) check_name) s1
      in case modify_data H (self_obj self s2) fn sub of
           Inl e \<Rightarrow> (Inl e, s2)
         | Inr data \<Rightarrow> returning self (call_effect H (lit ''info'') [] kw data s2))"

definition plot ::
  "host \<Rightarrow> DataFrameVet \<Rightarrow> pyfun \<Rightarrow> subset \<Rightarrow> pystr \<Rightarrow> kwargs \<Rightarrow> state \<Rightarrow> ref result"
where
  "plot H self fn sub check_name kw s =
     (case modify_data H (self_obj self s) fn sub of
        Inl e \<Rightarrow> (Inl e, s)
      | Inr data \<Rightarrow>
          returning self
            (call_effect H (lit ''plot'') []
               (if lit ''title'' \<in> set (map fst kw) then kw
                else kw @ [(lit ''title'', VStr (filter_emojis H (options s) check_name))])
               data s))"

subsection \<open>Timer\<close>

definition start_timer :: "host \<Rightarrow> DataFrameVet \<Rightarrow> bool \<Rightarrow> state \<Rightarrow> ref result" where
  "start_timer H self verbose s = (Inr (obj self), timer_start_timer H verbose s)"

definition print_time_elapsed ::
  "host \<Rightarrow> DataFrameVet \<Rightarrow> pystr \<Rightarrow> pystr \<Rightarrow> state \<Rightarrow> ref result"
where
  "print_time_elapsed H self check_name units s =
     returning self (timer_print_time_elapsed H check_name units s)"

subsection \<open>write\<close>

text \<open>
  The method \<open>write\<close> of the source; \<open>write\<close> is a keyword of Isabelle, hence the name
  \<open>write_df\<close>. The confirmation text is not an f-string: its braces are literal.
\<close>

definition write_error :: "pystr \<Rightarrow> error" where
  "write_error path =
     Raise AttributeError
       (lit ''Can'' @ [39] @ lit ''t write data to file. Unknown file extension in: '' @ path
        @ lit ''. '')"

definition wrote_file_text :: pystr where
  "wrote_file_text = [128230] @ lit '' Wrote file {path}''"

text \<open>\<open>data.to_excel(path)\<close>, \<open>data.to_csv(path)\<close> and \<open>data.to_parquet(path)\<close>.\<close>

definition encode :: "host \<Rightarrow> pystr \<Rightarrow> pystr \<Rightarrow> pyval \<Rightarrow> state \<Rightarrow> unit result" where
  "encode H method path data s = call_effect H method [VStr path] [] data s"

text \<open>Lines 280 to 282: the confirmation and the return, once the encoder has returned.\<close>

definition confirm :: "host \<Rightarrow> DataFrameVet \<Rightarrow> bool \<Rightarrow> unit result \<Rightarrow> ref result" where
  "confirm H self verbose r =
     (case r of
        (Inl e, s1) \<Rightarrow> (Inl e, s1)
      | (Inr u, s1) \<Rightarrow>
          (Inr (obj self),
           if verbose then py_print (filter_emojis H (options s1) wrote_file_text) s1 else s1))"

text \<open>Lines 272 to 279: the encoder is chosen by the suffix of the path.\<close>

definition export_by_suffix :: "host \<Rightarrow> pystr \<Rightarrow> pyval \<Rightarrow> state \<Rightarrow> unit result" where
  "export_by_suffix H path data s =
     (if endswith path (lit ''.xls'') \<or> endswith path (lit ''.xlsx'') then
        encode H (lit ''to_excel'') path data s
      else if endswith path (lit ''.csv'') then
        encode H (lit ''to_csv'') path data s
      else if endswith path (lit ''.parquet'') then
        encode H (lit ''to_parquet'') path data s
      else (Inl (write_error path), s))"

definition write_df ::
  "host \<Rightarrow> DataFrameVet \<Rightarrow> pystr \<Rightarrow> pyfun \<Rightarrow> subset \<Rightarrow> bool \<Rightarrow> state \<Rightarrow> ref result"
where
  "write_df H self path fn sub verbose s =
     (case modify_data H (self_obj self s) fn sub of
        Inl e \<Rightarrow> (Inl e, s)
      | Inr data \<Rightarrow> confirm H self verbose (export_by_suffix H path data s))"

section \<open>The accessor as an interface\<close>

text \<open>One constructor for each public method of \<open>DataFrameVet\<close>, with its arguments.\<close>

datatype call =
    SetFormat kwargs
  | ResetFormat
  | AssertData condition subset exn_class pystr pystr bool bool
  | Describe pyfun subset "pystr option" kwargs
  | Columns pyfun subset "pystr option"
  | Dtypes pyfun subset "pystr option"
  | Evaluate pyfun subset "pystr option"
  | Head int pyfun subset "pystr option"
  | Hist pyfun subset "pystr option" kwargs
  | Info pyfun subset pystr kwargs
  | MemoryUsage pyfun subset "pystr option" kwargs
  | Ncols pyfun subset "pystr option"
  | Ndups pyfun subset "pystr option" kwargs
  | Nnulls pyfun subset bool "pystr option"
  | Nrows pyfun subset "pystr option"
  | Nunique subset pyfun "pystr option" kwargs
  | Plot pyfun subset pystr kwargs
  | PrintData "pystr option" pyfun subset "pystr option" int
  | Shape pyfun subset "pystr option"
  | StartTimer bool
  | Tail int pyfun subset "pystr option"
  | PrintTimeElapsed pystr pystr
  | Unique subset pyfun "pystr option"
  | ValueCounts subset int pyfun "pystr option" kwargs
  | Write pystr pyfun subset bool

fun invoke :: "host \<Rightarrow> DataFrameVet \<Rightarrow> call \<Rightarrow> state \<Rightarrow> ref result" where
  "invoke H self (SetFormat kw) s = set_format H self kw s"
| "invoke H self ResetFormat s = reset_format H self s"
| "invoke H self (AssertData c sub ec pm fm re vb) s = assert_data H self c sub ec pm fm re vb s"
| "invoke H self (Describe fn sub cn kw) s = describe H self fn sub cn kw s"
| "invoke H self (Columns fn sub cn) s = columns H self fn sub cn s"
| "invoke H self (Dtypes fn sub cn) s = dtypes H self fn sub cn s"
| "invoke H self (Evaluate fn sub cn) s = evaluate H self fn sub cn s"
| "invoke H self (Head n fn sub cn) s = head H self n fn sub cn s"
| "invoke H self (Hist fn sub cn kw) s = hist H self fn sub cn kw s"
| "invoke H self (Info fn sub cn kw) s = info H self fn sub cn kw s"
| "invoke H self (MemoryUsage fn sub cn kw) s = memory_usage H self fn sub cn kw s"
| "invoke H self (Ncols fn sub cn) s = ncols H self fn sub cn s"
| "invoke H self (Ndups fn sub cn kw) s = ndups H self fn sub cn kw s"
| "invoke H self (Nnulls fn sub bc cn) s = nnulls H self fn sub bc cn s"
| "invoke H self (Nrows fn sub cn) s = nrows H self fn sub cn s"
| "invoke H self (Nunique col fn cn kw) s = nunique H self col fn cn kw s"
| "invoke H self (Plot fn sub cn kw) s = plot H self fn sub cn kw s"
| "invoke H self (PrintData txt fn sub cn mr) s = print H self txt fn sub cn mr s"
| "invoke H self (Shape fn sub cn) s = shape H self fn sub cn s"
| "invoke H self (StartTimer vb) s = start_timer H self vb s"
| "invoke H self (Tail n fn sub cn) s = tail H self n fn sub cn s"
| "invoke H self (PrintTimeElapsed cn units) s = print_time_elapsed H self cn units s"
| "invoke H self (Unique col fn cn) s = unique H self col fn cn s"
| "invoke H self (ValueCounts col mr fn cn kw) s = value_counts H self col mr fn cn kw s"
| "invoke H self (Write path fn sub vb) s = write_df H self path fn sub vb s"

section \<open>A concrete host and concrete tables\<close>

text \<open>
  A small host for worked examples: its registry knows the options \<open>vet.precision\<close> and
  \<open>vet.use_emojis\<close>, every host method succeeds and returns \<open>None\<close>, every code point
  above ASCII counts as decorative, and the decorations of messages are empty.
\<close>

definition example_host :: host where
  "example_host =
     \<lparr>py_call = (\<lambda>name args kw receiver. Inr VNone),
      py_eval = (\<lambda>expr data. Inr VNone),
      py_truth = (\<lambda>v. Inr True),
      py_str_other = (\<lambda>v. lit ''<object>''),
      py_repr_other = (\<lambda>t. [39] @ t @ [39]),
      pd_select_options =
        (\<lambda>pat opts. filter (\<lambda>k. opts k \<noteq> None) [lit ''vet.precision'', lit ''vet.use_emojis'']),
      pd_set_option = (\<lambda>k v opts. Inr (opts(k \<mapsto> v))),
      pd_key_error_message = (\<lambda>df sub. [39] @ str_subset (\<lambda>t. [39] @ t @ [39]) sub @ [39]),
      default_options =
        [lit ''vet.precision'' \<mapsto> VInt 2, lit ''vet.use_emojis'' \<mapsto> VBool True],
      use_emojis = (\<lambda>opts. opts (lit ''vet.use_emojis'') \<noteq> Some (VBool False)),
      is_emoji = (\<lambda>c. 127 < c),
      fail_decoration = (\<lambda>opts. ([], [])),
      success_decoration = (\<lambda>opts. ([], [])),
      timer_started_text = lit ''Timer started'',
      timer_unset_error = Raise AttributeError (lit ''timer not started''),
      format_elapsed = (\<lambda>units d. str_int d @ lit '' seconds'')\<rparr>"

text \<open>A state whose every reference holds the given table.\<close>

definition state_of :: "frame \<Rightarrow> state" where
  "state_of df =
     \<lparr>heap = (\<lambda>r. df), options = default_options example_host, out = [], timer = None,
      clock = 0\<rparr>"

definition example_self :: DataFrameVet where
  "example_self = \<lparr>obj = 7\<rparr>"

text \<open>The tables of the worked examples of the specification.\<close>

definition nulls_table :: frame where
  "nulls_table = Frame [lit ''a'', lit ''b''] [[I 1, Null], [I 2, I 2]]"


definition empty_table :: frame where
  "empty_table = Frame [lit ''a'', lit ''b''] []"



text \<open>The callable \<open>lambda d: len(d) > 0\<close>.\<close>

definition nonempty_condition :: condition where
  "nonempty_condition =
     Callable (lit ''lambda d: len(d) > 0'')
       (\<lambda>d. case d of
               VFrame df \<Rightarrow> Inr (VBool (rws df \<noteq> []))
             | VSeries sr \<Rightarrow> Inr (VBool (items sr \<noteq> []))
             | _ \<Rightarrow> Inl (Raise TypeError (lit ''object has no len()'')))"

section \<open>The reports as the specification describes them\<close>

text \<open>
  These definitions follow the words of the specification, not the code; the theorems
  below compare them with what the code computes.
  The null count of a column: the number of rows whose cell in that column is null.
\<close>

definition spec_null_count_of_column :: "frame \<Rightarrow> nat \<Rightarrow> nat" where
  "spec_null_count_of_column df j = length (filter (\<lambda>r. j < length r \<and> r ! j = Null) (rws df))"

definition spec_per_column_null_counts :: "frame \<Rightarrow> series" where
  "spec_per_column_null_counts df =
     Series (map (\<lambda>(j, c). (Name c, I (int (spec_null_count_of_column df j))))
               (enumerate 0 (cols df)))"

text \<open>The number of rows with a null in any column.\<close>

definition spec_rows_with_any_null :: "frame \<Rightarrow> nat" where
  "spec_rows_with_any_null df = length (filter (\<lambda>r. Null \<in> set r) (rws df))"


text \<open>
  \<open>chained self s r\<close>: the outcome \<open>r\<close> of a method started in state \<open>s\<close> leaves every
  object as it was, and is either the reference \<open>self._obj\<close> or an exception.
\<close>

definition chained :: "DataFrameVet \<Rightarrow> state \<Rightarrow> ref result \<Rightarrow> bool" where
  "chained self s r =
     (heap (snd r) = heap s \<and> (fst r = Inr (obj self) \<or> (\<exists>e. fst r = Inl e)))"

section \<open>Basic facts\<close>

lemma then_do_simps [simp]:
  "then_do (Inl e) f = Inl e"
  "then_do (Inr x) f = f x"
  by (simp_all add: then_do_def)

text \<open>Printing and logging leave the objects alone.\<close>

lemma heap_py_print [simp]: "heap (py_print t s) = heap s"
  by (simp add: py_print_def)

lemma heap_log_event [simp]: "heap (log_event e s) = heap s"
  by (simp add: log_event_def)

lemma options_py_print [simp]: "options (py_print t s) = options s"
  by (simp add: py_print_def)

lemma options_log_event [simp]: "options (log_event e s) = options s"
  by (simp add: log_event_def)

lemma heap_check_data [simp]: "heap (snd (check_data H d cf mf sub cn s)) = heap s"
  by (simp add: check_data_def split: sum.splits)

lemma heap_call_effect [simp]: "heap (snd (call_effect H n a k r s)) = heap s"
  by (simp add: call_effect_def split: sum.splits)

section \<open>Evaluating the worked examples\<close>

lemma lit_simps [simp]:
  "lit [] = []"
  "lit (c # cs) = of_char c # lit cs"
  by (simp_all add: lit_def)

lemma example_host_fields [simp]:
  "py_call example_host = (\<lambda>name args kw receiver. Inr VNone)"
  "py_eval example_host = (\<lambda>expr data. Inr VNone)"
  "py_truth example_host = (\<lambda>v. Inr True)"
  "py_str_other example_host = (\<lambda>v. lit ''<object>'')"
  "py_repr_other example_host = (\<lambda>t. [39] @ t @ [39])"
  "pd_set_option example_host = (\<lambda>k v opts. Inr (opts(k \<mapsto> v)))"
  "pd_key_error_message example_host =
     (\<lambda>df sub. [39] @ str_subset (\<lambda>t. [39] @ t @ [39]) sub @ [39])"
  "is_emoji example_host = (\<lambda>c. 127 < c)"
  "fail_decoration example_host = (\<lambda>opts. ([], []))"
  "success_decoration example_host = (\<lambda>opts. ([], []))"
  by (simp_all add: example_host_def)

lemma state_of_fields [simp]:
  "heap (state_of df) = (\<lambda>r. df)"
  "out (state_of df) = []"
  "timer (state_of df) = None"
  "clock (state_of df) = 0"
  by (simp_all add: state_of_def)

lemma obj_example_self [simp]: "obj example_self = 7"
  by (simp add: example_self_def)

lemma modify_example [simp]:
  "modify_data example_host (self_obj example_self (state_of df)) identity_fn SNone = Inr (VFrame df)"
  by (simp add: modify_data_def self_obj_def identity_fn_def)

lemma use_emojis_example [simp]: "use_emojis example_host (options (state_of df)) = True"
  by (simp add: example_host_def state_of_def)

lemma select_options_example [simp]:
  "pd_select_options example_host pat (options (state_of df))
     = [lit ''vet.precision'', lit ''vet.use_emojis'']"
  by (simp add: example_host_def state_of_def)

lemma select_whole_example [simp]:
  "select_data example_host example_self SNone (state_of df) = Inr (VFrame df)"
  by (simp add: select_data_def self_obj_def)

lemma nonempty_condition_on_empty_table:
  "evaluate_condition example_host nonempty_condition (VFrame empty_table)
     = Inr (VBool False, lit ''lambda d: len(d) > 0'')"
  by (simp add: nonempty_condition_def empty_table_def)

section \<open>Every method hands back the dataset it was given\<close>

lemma chained_Inl [simp]: "chained self s (Inl e, s') = (heap s' = heap s)"
  by (simp add: chained_def)

lemma chained_Inr [simp]: "chained self s (Inr r, s') = (heap s' = heap s \<and> r = obj self)"
  by (auto simp add: chained_def)

lemma chained_returning: "heap (snd r) = heap s \<Longrightarrow> chained self s (returning self r)"
  by (simp add: chained_def returning_def split: sum.splits)

lemma chained_confirm: "heap (snd r) = heap s \<Longrightarrow> chained self s (confirm H self vb r)"
  by (cases r) (simp add: confirm_def split: sum.splits)

lemma chained_set_format: "chained self s (set_format H self kw s)"
  by (simp add: set_format_def split: prod.splits option.splits)

lemma chained_assert_data: "chained self s (assert_data H self c sub ec pm fm re vb s)"
  by (simp add: assert_data_def Let_def split: sum.splits prod.splits)

lemma chained_hist: "chained self s (hist H self fn sub cn kw s)"
proof (cases "modify_data H (self_obj self s) fn sub")
  case (Inl e)
  then show ?thesis by (simp add: hist_def)
next
  case (Inr data)
  obtain r s1 where eff: "call_effect H (lit ''hist'') [] kw data s = (r, s1)"
    by (cases "call_effect H (lit ''hist'') [] kw data s")
  have h1: "heap s1 = heap s"
    using heap_call_effect [of H "lit ''hist''" "[]" kw data s] unfolding eff by simp
  show ?thesis
    using Inr eff h1 chained_returning [of _ s1 self]
    by (simp add: hist_def chained_def returning_def split: sum.splits)
qed

lemma chained_info: "chained self s (info H self fn sub cn kw s)"
  by (simp add: info_def Let_def chained_returning split: sum.splits)

lemma chained_plot: "chained self s (plot H self fn sub cn kw s)"
  by (simp add: plot_def chained_returning split: sum.splits)

lemma chained_nnulls: "chained self s (nnulls H self fn sub bc cn s)"
  by (simp add: nnulls_def Let_def chained_returning split: sum.splits)

lemma heap_export_by_suffix [simp]: "heap (snd (export_by_suffix H path data s)) = heap s"
  by (simp add: export_by_suffix_def encode_def)

lemma chained_write_df: "chained self s (write_df H self path fn sub vb s)"
  by (simp add: write_df_def chained_confirm split: sum.splits)

lemma chained_start_timer: "chained self s (start_timer H self vb s)"
  by (simp add: start_timer_def timer_start_timer_def Let_def)

lemma chained_print_time_elapsed: "chained self s (print_time_elapsed H self cn units s)"
  by (simp add: print_time_elapsed_def timer_print_time_elapsed_def chained_returning
      split: option.splits)

lemma chained_invoke: "chained self s (invoke H self c s)"
  by (cases c)
     (simp_all add: chained_set_format chained_assert_data chained_hist chained_info
        chained_plot chained_nnulls chained_write_df chained_start_timer
        chained_print_time_elapsed chained_returning
        reset_format_def describe_def columns_def dtypes_def evaluate_def head_def tail_def
        memory_usage_def ncols_def nrows_def shape_def nunique_def unique_def
        value_counts_def print_def ndups_def)

text \<open>
  C1. Whatever method of the accessor is called, with whatever arguments and in whatever
  state: no object of the heap is altered (so the dataset keeps its contents and its
  schema), and the call either raises or returns the very reference the accessor was
  constructed with. Transforms and conditions of the caller are functions from values
  to values.
\<close>

theorem accessor_returns_its_dataset:
  "heap (snd (invoke H self c s)) = heap s
   \<and> (fst (invoke H self c s) = Inr (obj self) \<or> (\<exists>e. fst (invoke H self c s) = Inl e))"
  using chained_invoke [of self s H c] by (simp add: chained_def)

text \<open>
  With the default arguments on the example table, \<open>nrows\<close> and \<open>shape\<close> return the
  reference of the accessor, and \<open>evaluate\<close> with a subset that names no column raises.
\<close>

theorem accessor_returns_its_dataset_witness:
  "invoke example_host example_self (Nrows identity_fn SNone None) (state_of nulls_table)
     = (Inr (obj example_self), log_event (Display None (VInt 2)) (state_of nulls_table))
   \<and> invoke example_host example_self (Shape identity_fn SNone None) (state_of nulls_table)
     = (Inr (obj example_self),
        log_event (Display None (VTuple [VInt 2, VInt 2])) (state_of nulls_table))
   \<and> invoke example_host example_self (Evaluate identity_fn (SName (lit ''zzz'')) None)
        (state_of nulls_table)
     = (Inl (Raise KeyError ([39] @ lit ''zzz'' @ [39])), state_of nulls_table)
   \<and> heap (snd (invoke example_host example_self (Nrows identity_fn SNone None)
                    (state_of nulls_table)))
     = heap (state_of nulls_table)"
proof -
  have "invoke example_host example_self (Nrows identity_fn SNone None) (state_of nulls_table)
     = (Inr (obj example_self), log_event (Display None (VInt 2)) (state_of nulls_table))"
    by (simp add: nrows_def check_data_def returning_def shape_of_def item_at_def
        nulls_table_def)
  moreover
  have "invoke example_host example_self (Shape identity_fn SNone None) (state_of nulls_table)
     = (Inr (obj example_self),
        log_event (Display None (VTuple [VInt 2, VInt 2])) (state_of nulls_table))"
    by (simp add: shape_def check_data_def returning_def shape_of_def nulls_table_def)
  moreover
  have "invoke example_host example_self (Evaluate identity_fn (SName (lit ''zzz'')) None)
        (state_of nulls_table)
     = (Inl (Raise KeyError ([39] @ lit ''zzz'' @ [39])), state_of nulls_table)"
    by (simp add: evaluate_def check_data_def returning_def modify_data_def getitem_def
        self_obj_def nulls_table_def)
  ultimately show ?thesis
    using accessor_returns_its_dataset
            [of example_host example_self "Nrows identity_fn SNone None" "state_of nulls_table"]
    by simp
qed

section \<open>assert_data\<close>

text \<open>
  C2. Suppose the subset selection of line 40 gives \<open>data\<close>, the condition evaluates on
  it to \<open>result\<close> with the text \<open>condition_str\<close>, and \<open>result\<close> is falsy. With
  \<open>raise_exception\<close> true, \<open>assert_data\<close> raises \<open>exception_class\<close> (by default
  \<open>DataError\<close>) with the message \<open>fail_message: condition_str\<close>, which contains both the
  fail message and the text of the condition, and the state is untouched. With
  \<open>raise_exception\<close> false it does not raise: it returns \<open>self._obj\<close>, no object is
  altered, and the line with the decorated fail message is printed.
\<close>

theorem assert_data_on_falsy_result:
  assumes "select_data H self sub s = Inr data"
    and "evaluate_condition H condition data = Inr (result, condition_str)"
    and "truth H result = Inr False"
  shows "assert_data H self condition sub exception_class pass_message fail_message True verbose s
           = (Inl (Raise exception_class (fail_message @ lit '': '' @ condition_str)), s)
       \<and> sublist fail_message (fail_message @ lit '': '' @ condition_str)
       \<and> sublist condition_str (fail_message @ lit '': '' @ condition_str)
       \<and> default_exception_class = DataError
       \<and> fst (assert_data H self condition sub exception_class pass_message fail_message
                 False verbose s) = Inr (obj self)
       \<and> heap (snd (assert_data H self condition sub exception_class pass_message fail_message
                       False verbose s)) = heap s
       \<and> out (snd (assert_data H self condition sub exception_class pass_message fail_message
                      False verbose s))
           = out s
             @ [Print (format_fail_message H (options s) fail_message @ lit '': '' @ condition_str)]
             @ (if verbose then
                  [Print (format_success_message H (options s) pass_message @ lit '': ''
                          @ condition_str)]
                else [])"
  using assms sublist_appendI [of condition_str "fail_message @ lit '': ''" "[]"]
  by (simp add: assert_data_def py_print_def default_exception_class_def Let_def)

text \<open>
  The example of the specification: \<open>lambda d: len(d) > 0\<close> on an empty table raises the
  default \<open>DataError\<close> with the fail message; with \<open>raise_exception=False\<close> the call
  returns and the fail message is printed.
\<close>

theorem assert_data_on_falsy_result_witness:
  "select_data example_host example_self SNone (state_of empty_table) = Inr (VFrame empty_table)
   \<and> evaluate_condition example_host nonempty_condition (VFrame empty_table)
       = Inr (VBool False, lit ''lambda d: len(d) > 0'')
   \<and> truth example_host (VBool False) = Inr False
   \<and> assert_data example_host example_self nonempty_condition SNone default_exception_class
        default_pass_message default_fail_message True False (state_of empty_table)
       = (Inl (Raise DataError (default_fail_message @ lit '': lambda d: len(d) > 0'')),
          state_of empty_table)
   \<and> fst (assert_data example_host example_self nonempty_condition SNone default_exception_class
             default_pass_message default_fail_message False False (state_of empty_table))
       = Inr 7
   \<and> out (snd (assert_data example_host example_self nonempty_condition SNone
                  default_exception_class default_pass_message default_fail_message False False
                  (state_of empty_table)))
       = [Print (default_fail_message @ lit '': lambda d: len(d) > 0'')]"
  using assert_data_on_falsy_result
          [OF select_whole_example nonempty_condition_on_empty_table,
           of default_exception_class default_pass_message default_fail_message False]
  by (simp add: nonempty_condition_on_empty_table format_fail_message_def
      default_exception_class_def)

text \<open>
  C3. The pass message is meant for a truthy result. In the source the final
  \<open>if verbose\<close> is not an \<open>else\<close> branch of \<open>if not result\<close>: with
  \<open>raise_exception=False\<close> and \<open>verbose=True\<close> a falsy result prints the fail message and
  then the pass message. Here \<open>lambda d: len(d) > 0\<close> on an empty table.
\<close>

theorem assert_data_prints_pass_message_after_failure:
  "out (snd (assert_data example_host example_self nonempty_condition SNone
               default_exception_class default_pass_message default_fail_message False True
               (state_of empty_table)))
     = [Print (default_fail_message @ lit '': lambda d: len(d) > 0''),
        Print (default_pass_message @ lit '': lambda d: len(d) > 0'')]"
  by (simp add: assert_data_def nonempty_condition_on_empty_table Let_def py_print_def
      format_fail_message_def format_success_message_def)

text \<open>
  C8, as amended. For a condition that is neither a callable nor a string, \<open>assert_data\<close>
  first performs the subset selection of line 40. If the selection raises (a missing
  column), that exception propagates. Otherwise \<open>assert_data\<close> raises the \<open>TypeError\<close>
  naming the type of the condition. In both cases the state is untouched (nothing is
  printed), no data-quality error is raised, and no expression is evaluated: the outcome
  is the same whatever \<open>eval\<close> would do.
\<close>

theorem assert_data_unsupported_condition:
  assumes "\<not> is_str v"
  shows "assert_data H self (NotCallable v) sub exception_class pass_message fail_message
           raise_exception verbose s
         = (case select_data H self sub s of
              Inl e \<Rightarrow> (Inl e, s)
            | Inr data \<Rightarrow> (Inl (condition_type_error v), s))
       \<and> assert_data (H\<lparr>py_eval := ev\<rparr>) self (NotCallable v) sub exception_class pass_message
           fail_message raise_exception verbose s
         = assert_data H self (NotCallable v) sub exception_class pass_message fail_message
             raise_exception verbose s"
proof -
  have sel: "select_data (H\<lparr>py_eval := ev\<rparr>) self sub s = select_data H self sub s"
    by (cases sub) (simp_all add: select_data_def getitem_def self_obj_def)
  have ty: "\<And>G data. evaluate_condition G (NotCallable v) data = Inl (condition_type_error v)"
    using assms by (cases v) simp_all
  show ?thesis
    by (simp add: assert_data_def sel ty split: sum.splits)
qed

theorem assert_data_unsupported_condition_witness:
  "\<not> is_str (VInt 5)
   \<and> assert_data example_host example_self (NotCallable (VInt 5)) SNone default_exception_class
        default_pass_message default_fail_message True True (state_of nulls_table)
       = (Inl (Raise TypeError
                 (lit ''Argument '' @ [96] @ lit ''condition'' @ [96]
                  @ lit '' is of unexpected type <class '' @ [39] @ lit ''int'' @ [39] @ lit ''>'')),
          state_of nulls_table)"
  using assert_data_unsupported_condition
          [of "VInt 5" example_host example_self SNone default_exception_class
              default_pass_message default_fail_message True True "state_of nulls_table"]
  by (simp add: condition_type_error_def str_type_def)

text \<open>
  The claim as stated fails when the subset names a missing column: the condition \<open>5\<close>
  with \<open>subset="zzz"\<close> on a table with the columns \<open>a\<close> and \<open>b\<close> raises \<open>KeyError\<close>, not
  the \<open>TypeError\<close>.
\<close>

theorem assert_data_unsupported_condition_counterexample:
  "fst (assert_data example_host example_self (NotCallable (VInt 5)) (SName (lit ''zzz''))
          default_exception_class default_pass_message default_fail_message True False
          (state_of nulls_table))
     = Inl (Raise KeyError ([39] @ lit ''zzz'' @ [39]))
   \<and> Raise KeyError ([39] @ lit ''zzz'' @ [39]) \<noteq> condition_type_error (VInt 5)"
  by (simp add: assert_data_def select_data_def getitem_def self_obj_def nulls_table_def
      condition_type_error_def)

text \<open>
  C9. A falsy subset (\<open>None\<close>, the empty string, the empty list) selects nothing: the
  condition is evaluated against the whole dataset, and \<open>assert_data\<close> behaves exactly as
  with \<open>subset=None\<close>.
\<close>

theorem assert_data_falsy_subset:
  assumes "\<not> subset_truthy sub"
  shows "select_data H self sub s = Inr (self_obj self s)
       \<and> assert_data H self condition sub exception_class pass_message fail_message
           raise_exception verbose s
         = assert_data H self condition SNone exception_class pass_message fail_message
             raise_exception verbose s"
  using assms by (simp add: select_data_def assert_data_def)

text \<open>
  The empty list and the empty string on the example table: the data is the whole table,
  although selecting the empty list of columns would give a table without columns.
\<close>

theorem assert_data_falsy_subset_witness:
  "\<not> subset_truthy (SCols []) \<and> \<not> subset_truthy (SName []) \<and> \<not> subset_truthy SNone
   \<and> select_data example_host example_self (SCols []) (state_of nulls_table)
       = Inr (VFrame nulls_table)
   \<and> select_data example_host example_self (SName []) (state_of nulls_table)
       = Inr (VFrame nulls_table)
   \<and> getitem example_host (VFrame nulls_table) (SCols []) = Inr (VFrame (Frame [] [[], []]))"
  using assert_data_falsy_subset [of "SCols []" example_host example_self "state_of nulls_table"]
        assert_data_falsy_subset [of "SName []" example_host example_self "state_of nulls_table"]
  by (simp add: self_obj_def getitem_def narrow_def nulls_table_def)

section \<open>write\<close>

text \<open>\<open>endswith\<close> is the suffix relation on lists.\<close>

lemma endswith_suffix: "endswith s p = suffix p s"
proof
  assume "endswith s p"
  then have "s = take (length s - length p) s @ p"
    by (metis append_take_drop_id endswith_def)
  then show "suffix p s" by (metis suffixI)
next
  assume "suffix p s"
  then obtain zs where "s = zs @ p" by (auto simp: suffix_def)
  then show "endswith s p" by (simp add: endswith_def)
qed

lemma endswith_last: "endswith s p \<Longrightarrow> p \<noteq> [] \<Longrightarrow> last s = last p"
  by (auto simp: endswith_suffix suffix_def)

lemma endswith_set: "endswith s p \<Longrightarrow> set p \<subseteq> set s"
  by (auto simp: endswith_suffix suffix_def)

lemma last_of_suffixes:
  "endswith path (lit ''.xls'') \<Longrightarrow> last path = 115"
  "endswith path (lit ''.xlsx'') \<Longrightarrow> last path = 120"
  "endswith path (lit ''.csv'') \<Longrightarrow> last path = 118"
  "endswith path (lit ''.parquet'') \<Longrightarrow> last path = 116"
  using endswith_last [of path "lit ''.csv''"] endswith_last [of path "lit ''.xls''"]
    endswith_last [of path "lit ''.xlsx''"] endswith_last [of path "lit ''.parquet''"]
  by simp_all

lemma export_excel:
  "endswith path (lit ''.xls'') \<or> endswith path (lit ''.xlsx'') \<Longrightarrow>
     export_by_suffix H path data s = encode H (lit ''to_excel'') path data s"
  unfolding export_by_suffix_def by (rule if_P)

lemma export_csv:
  assumes "endswith path (lit ''.csv'')"
  shows "export_by_suffix H path data s = encode H (lit ''to_csv'') path data s"
proof -
  have "\<not> (endswith path (lit ''.xls'') \<or> endswith path (lit ''.xlsx''))"
    using assms last_of_suffixes [of path] by fastforce
  then show ?thesis
    unfolding export_by_suffix_def using assms by (simp only: if_False if_True)
qed

lemma export_parquet:
  assumes "endswith path (lit ''.parquet'')"
  shows "export_by_suffix H path data s = encode H (lit ''to_parquet'') path data s"
proof -
  have "\<not> (endswith path (lit ''.xls'') \<or> endswith path (lit ''.xlsx''))"
    and "\<not> endswith path (lit ''.csv'')"
    using assms last_of_suffixes [of path] by fastforce+
  then show ?thesis
    unfolding export_by_suffix_def using assms by (simp only: if_False if_True)
qed

lemma export_unknown:
  assumes "\<not> endswith path (lit ''.xls'')" "\<not> endswith path (lit ''.xlsx'')"
    "\<not> endswith path (lit ''.csv'')" "\<not> endswith path (lit ''.parquet'')"
  shows "export_by_suffix H path data s = (Inl (write_error path), s)"
  unfolding export_by_suffix_def using assms by (simp only: if_False simp_thms)


lemma write_df_resolved:
  "modify_data H (self_obj self s) fn sub = Inr data \<Longrightarrow>
     write_df H self path fn sub verbose s = confirm H self verbose (export_by_suffix H path data s)"
  by (simp add: write_df_def)

text \<open>
  C4. Once the data is resolved (section 4.1: subset, then transform), \<open>write\<close>
  dispatches on the suffix of the path alone. A path ending in \<open>.xls\<close> or \<open>.xlsx\<close>
  calls \<open>to_excel\<close>, one ending in \<open>.csv\<close> calls \<open>to_csv\<close>, one ending in
  \<open>.parquet\<close> calls \<open>to_parquet\<close>, each with the path, on the resolved data, and then
  confirms and returns. Any other path raises the unknown-extension error and leaves the
  state as it was, so nothing is written. Whenever \<open>write\<close> returns, it returns
  \<open>self._obj\<close>.
\<close>

theorem write_dispatches_on_suffix:
  assumes "modify_data H (self_obj self s) fn sub = Inr data"
  shows "(endswith path (lit ''.xls'') \<or> endswith path (lit ''.xlsx'') \<longrightarrow>
            write_df H self path fn sub verbose s
              = confirm H self verbose (encode H (lit ''to_excel'') path data s))
       \<and> (endswith path (lit ''.csv'') \<longrightarrow>
            write_df H self path fn sub verbose s
              = confirm H self verbose (encode H (lit ''to_csv'') path data s))
       \<and> (endswith path (lit ''.parquet'') \<longrightarrow>
            write_df H self path fn sub verbose s
              = confirm H self verbose (encode H (lit ''to_parquet'') path data s))
       \<and> (\<not> endswith path (lit ''.xls'') \<and> \<not> endswith path (lit ''.xlsx'')
          \<and> \<not> endswith path (lit ''.csv'') \<and> \<not> endswith path (lit ''.parquet'') \<longrightarrow>
            write_df H self path fn sub verbose s = (Inl (write_error path), s))
       \<and> (\<forall>r. fst (write_df H self path fn sub verbose s) = Inr r \<longrightarrow> r = obj self)"
proof (intro conjI impI allI)
  assume "endswith path (lit ''.xls'') \<or> endswith path (lit ''.xlsx'')"
  then show "write_df H self path fn sub verbose s
              = confirm H self verbose (encode H (lit ''to_excel'') path data s)"
    using write_df_resolved [OF assms] export_excel by simp
next
  assume "endswith path (lit ''.csv'')"
  then show "write_df H self path fn sub verbose s
              = confirm H self verbose (encode H (lit ''to_csv'') path data s)"
    using write_df_resolved [OF assms] export_csv by simp
next
  assume "endswith path (lit ''.parquet'')"
  then show "write_df H self path fn sub verbose s
              = confirm H self verbose (encode H (lit ''to_parquet'') path data s)"
    using write_df_resolved [OF assms] export_parquet by simp
next
  assume "\<not> endswith path (lit ''.xls'') \<and> \<not> endswith path (lit ''.xlsx'')
          \<and> \<not> endswith path (lit ''.csv'') \<and> \<not> endswith path (lit ''.parquet'')"
  then have "export_by_suffix H path data s = (Inl (write_error path), s)"
    using export_unknown by blast
  then show "write_df H self path fn sub verbose s = (Inl (write_error path), s)"
    using write_df_resolved [OF assms] by (simp add: confirm_def)
next
  fix r
  assume "fst (write_df H self path fn sub verbose s) = Inr r"
  then show "r = obj self"
    using chained_write_df [of self s H path fn sub verbose] by (auto simp: chained_def)
qed


lemma confirm_encode_example:
  "confirm example_host example_self False (encode example_host m p d s)
     = (Inr 7, log_event (Effect m [VStr p] [] d) s)"
  by (simp add: confirm_def encode_def call_effect_def)

text \<open>
  On the example table with the default transform and no subset: \<open>out.csv\<close>,
  \<open>out.xlsx\<close> and \<open>out.parquet\<close> reach their encoders and return the dataset;
  \<open>out.xyz\<close> raises and writes nothing.
\<close>

theorem write_dispatches_on_suffix_witness:
  "modify_data example_host (self_obj example_self (state_of nulls_table)) identity_fn SNone = Inr (VFrame nulls_table)
   \<and> endswith (lit ''out.csv'') (lit ''.csv'')
   \<and> write_df example_host example_self (lit ''out.csv'') identity_fn SNone False (state_of nulls_table)
      = (Inr 7, log_event (Effect (lit ''to_csv'') [VStr (lit ''out.csv'')] [] (VFrame nulls_table)) (state_of nulls_table))
   \<and> endswith (lit ''out.xlsx'') (lit ''.xlsx'')
   \<and> write_df example_host example_self (lit ''out.xlsx'') identity_fn SNone False (state_of nulls_table)
      = (Inr 7, log_event (Effect (lit ''to_excel'') [VStr (lit ''out.xlsx'')] [] (VFrame nulls_table)) (state_of nulls_table))
   \<and> endswith (lit ''out.parquet'') (lit ''.parquet'')
   \<and> write_df example_host example_self (lit ''out.parquet'') identity_fn SNone False (state_of nulls_table)
      = (Inr 7, log_event (Effect (lit ''to_parquet'') [VStr (lit ''out.parquet'')] [] (VFrame nulls_table)) (state_of nulls_table))
   \<and> \<not> endswith (lit ''out.xyz'') (lit ''.xls'') \<and> \<not> endswith (lit ''out.xyz'') (lit ''.xlsx'')
   \<and> \<not> endswith (lit ''out.xyz'') (lit ''.csv'') \<and> \<not> endswith (lit ''out.xyz'') (lit ''.parquet'')
   \<and> write_df example_host example_self (lit ''out.xyz'') identity_fn SNone False (state_of nulls_table)
      = (Inl (write_error (lit ''out.xyz'')), state_of nulls_table)"
proof -
  have e1: "endswith (lit ''out.csv'') (lit ''.csv'')"
    and e2: "endswith (lit ''out.xlsx'') (lit ''.xlsx'')"
    and e3: "endswith (lit ''out.parquet'') (lit ''.parquet'')"
    and e4: "\<not> endswith (lit ''out.xyz'') (lit ''.xls'') \<and> \<not> endswith (lit ''out.xyz'') (lit ''.xlsx'')
          \<and> \<not> endswith (lit ''out.xyz'') (lit ''.csv'') \<and> \<not> endswith (lit ''out.xyz'') (lit ''.parquet'')"
    by (simp_all add: endswith_def)
  note w = write_dispatches_on_suffix [OF modify_example [of nulls_table], where verbose = False]
  have w1: "write_df example_host example_self (lit ''out.csv'') identity_fn SNone False (state_of nulls_table)
      = (Inr 7, log_event (Effect (lit ''to_csv'') [VStr (lit ''out.csv'')] [] (VFrame nulls_table)) (state_of nulls_table))"
    using w [where path = "lit ''out.csv''"] e1 by (simp only: confirm_encode_example simp_thms)
  have w2: "write_df example_host example_self (lit ''out.xlsx'') identity_fn SNone False (state_of nulls_table)
      = (Inr 7, log_event (Effect (lit ''to_excel'') [VStr (lit ''out.xlsx'')] [] (VFrame nulls_table)) (state_of nulls_table))"
    using w [where path = "lit ''out.xlsx''"] e2 by (simp only: confirm_encode_example simp_thms)
  have w3: "write_df example_host example_self (lit ''out.parquet'') identity_fn SNone False (state_of nulls_table)
      = (Inr 7, log_event (Effect (lit ''to_parquet'') [VStr (lit ''out.parquet'')] [] (VFrame nulls_table)) (state_of nulls_table))"
    using w [where path = "lit ''out.parquet''"] e3 by (simp only: confirm_encode_example simp_thms)
  have w4: "write_df example_host example_self (lit ''out.xyz'') identity_fn SNone False (state_of nulls_table)
      = (Inl (write_error (lit ''out.xyz'')), state_of nulls_table)"
    using w [where path = "lit ''out.xyz''"] e4 by blast
  show ?thesis
    using e1 e2 e3 e4 w1 w2 w3 w4 modify_example [of nulls_table] by blast
qed


lemma options_export_by_suffix [simp]: "options (snd (export_by_suffix H path data s)) = options s"
  by (simp add: export_by_suffix_def encode_def call_effect_def split: sum.splits)

lemma confirm_verbose_fst: "fst (confirm H self True r) = fst (confirm H self False r)"
  by (cases r; cases "fst r") (simp_all add: confirm_def)

lemma confirm_verbose_out:
  assumes "fst (confirm H self True r) = Inr x"
  shows "out (snd (confirm H self True r))
           = out (snd (confirm H self False r)) @ [Print (filter_emojis H (options (snd r)) wrote_file_text)]"
  using assms by (cases r; cases "fst r") (simp_all add: confirm_def py_print_def)

lemma write_df_returns_resolved:
  assumes "fst (write_df H self path fn sub vb s) = Inr r"
  shows "\<exists>data. modify_data H (self_obj self s) fn sub = Inr data
           \<and> (\<exists>s1. export_by_suffix H path data s = (Inr (), s1))"
proof (cases "modify_data H (self_obj self s) fn sub")
  case (Inl e)
  then show ?thesis using assms by (simp add: write_df_def)
next
  case (Inr data)
  obtain q s1 where e: "export_by_suffix H path data s = (q, s1)"
    by (cases "export_by_suffix H path data s")
  then show ?thesis
    using assms Inr by (cases q) (simp_all add: write_df_def confirm_def)
qed

lemma write_df_returns_suffix:
  assumes "fst (write_df H self path fn sub vb s) = Inr r"
  shows "endswith path (lit ''.xls'') \<or> endswith path (lit ''.xlsx'')
       \<or> endswith path (lit ''.csv'') \<or> endswith path (lit ''.parquet'')"
proof (rule ccontr)
  assume "\<not> ?thesis"
  then have "\<And>data. export_by_suffix H path data s = (Inl (write_error path), s)"
    using export_unknown by blast
  then show False
    using write_df_returns_resolved [OF assms] by auto
qed

lemma dot_in_written_path:
  assumes "fst (write_df H self path fn sub vb s) = Inr r"
  shows "46 \<in> set path"
proof -
  have "46 \<in> set (lit ''.xls'')" "46 \<in> set (lit ''.xlsx'')" "46 \<in> set (lit ''.csv'')"
    "46 \<in> set (lit ''.parquet'')"
    by simp_all
  then show ?thesis
    using write_df_returns_suffix [OF assms] endswith_set [of path] by blast
qed

lemma set_filter_emojis: "set (filter_emojis H opts t) \<subseteq> set t"
  by (auto simp: filter_emojis_def)

lemma no_dot_in_wrote_file_text: "46 \<notin> set (filter_emojis H opts wrote_file_text)"
proof -
  have "46 \<notin> set wrote_file_text"
    by (simp add: wrote_file_text_def)
  then show ?thesis
    using set_filter_emojis [of H opts wrote_file_text] by blast
qed

text \<open>
  C10. When \<open>write\<close> returns with \<open>verbose=True\<close>, the one line it prints beyond what
  it does with \<open>verbose=False\<close> is the emoji-filtered literal text
  \<open>Wrote file {path}\<close> after the package symbol: the braces are not a placeholder. The
  line is the same for every path, and the path is never part of it (a written path
  contains a dot, the text has none).
\<close>

theorem write_confirmation_is_fixed_text:
  assumes "fst (write_df H self path fn sub True s) = Inr r"
  shows "out (snd (write_df H self path fn sub True s))
          = out (snd (write_df H self path fn sub False s))
            @ [Print (filter_emojis H (options s) wrote_file_text)]
     \<and> wrote_file_text = [128230] @ lit '' Wrote file {path}''
     \<and> \<not> sublist path (filter_emojis H (options s) wrote_file_text)"
proof (intro conjI)
  obtain data where d: "modify_data H (self_obj self s) fn sub = Inr data"
    using write_df_returns_resolved [OF assms] by blast
  have "fst (confirm H self True (export_by_suffix H path data s)) = Inr r"
    using assms write_df_resolved [OF d] by simp
  then show "out (snd (write_df H self path fn sub True s))
          = out (snd (write_df H self path fn sub False s))
            @ [Print (filter_emojis H (options s) wrote_file_text)]"
    using confirm_verbose_out [of H self "export_by_suffix H path data s" r]
    by (simp add: write_df_resolved [OF d])
next
  show "wrote_file_text = [128230] @ lit '' Wrote file {path}''"
    by (simp add: wrote_file_text_def)
next
  show "\<not> sublist path (filter_emojis H (options s) wrote_file_text)"
    using dot_in_written_path [OF assms] no_dot_in_wrote_file_text [of H "options s"]
      set_mono_sublist [of path "filter_emojis H (options s) wrote_file_text"]
    by blast
qed

theorem write_confirmation_is_fixed_text_witness:
  "fst (write_df example_host example_self (lit ''out/data.csv'') identity_fn SNone True (state_of nulls_table)) = Inr 7
   \<and> out (snd (write_df example_host example_self (lit ''out/data.csv'') identity_fn SNone True (state_of nulls_table)))
      = [Effect (lit ''to_csv'') [VStr (lit ''out/data.csv'')] [] (VFrame nulls_table),
         Print ([128230] @ lit '' Wrote file {path}'')]
   \<and> \<not> sublist (lit ''out/data.csv'') ([128230] @ lit '' Wrote file {path}'')"
proof -
  have e: "endswith (lit ''out/data.csv'') (lit ''.csv'')"
    by (simp add: endswith_def)
  have x: "export_by_suffix example_host (lit ''out/data.csv'') (VFrame nulls_table) (state_of nulls_table)
             = (Inr (), log_event (Effect (lit ''to_csv'') [VStr (lit ''out/data.csv'')] [] (VFrame nulls_table)) (state_of nulls_table))"
    by (simp only: export_csv [OF e]) (simp add: encode_def call_effect_def)
  have f: "fst (write_df example_host example_self (lit ''out/data.csv'') identity_fn SNone True (state_of nulls_table)) = Inr 7"
    by (simp only: write_df_resolved [OF modify_example] x) (simp add: confirm_def)
  have o: "out (snd (write_df example_host example_self (lit ''out/data.csv'') identity_fn SNone False (state_of nulls_table)))
      = [Effect (lit ''to_csv'') [VStr (lit ''out/data.csv'')] [] (VFrame nulls_table)]"
    by (simp only: write_df_resolved [OF modify_example] x) (simp add: confirm_def log_event_def)
  have t: "filter_emojis example_host (options (state_of nulls_table)) wrote_file_text = [128230] @ lit '' Wrote file {path}''"
    by (simp add: filter_emojis_def wrote_file_text_def)
  have "out (snd (write_df example_host example_self (lit ''out/data.csv'') identity_fn SNone True
                    (state_of nulls_table)))
          = [Effect (lit ''to_csv'') [VStr (lit ''out/data.csv'')] [] (VFrame nulls_table)]
            @ [Print ([128230] @ lit '' Wrote file {path}'')]"
    using write_confirmation_is_fixed_text [OF f, THEN conjunct1] by (simp only: o t simp_thms)
  moreover have "\<not> sublist (lit ''out/data.csv'') ([128230] @ lit '' Wrote file {path}'')"
    using write_confirmation_is_fixed_text [OF f, THEN conjunct2, THEN conjunct2] by (simp only: t simp_thms)
  ultimately show ?thesis
    using f by simp
qed

section \<open>set_format\<close>

text \<open>Facts about containment of one text in another.\<close>

lemma sublist_in_context: "sublist a b \<Longrightarrow> sublist a (p @ b @ q)"
proof -
  assume "sublist a b"
  then obtain u v where "b = u @ a @ v" by (auto simp: sublist_def)
  then have "p @ b @ q = (p @ u) @ a @ (v @ q)" by simp
  then show ?thesis unfolding sublist_def by blast
qed

lemma sublist_join: "x \<in> set xs \<Longrightarrow> sublist x (join sep xs)"
proof (induction sep xs rule: join.induct)
  case (1 sep)
  then show ?case by simp
next
  case (2 sep y)
  then show ?case by simp
next
  case (3 sep y z zs)
  show ?case
  proof (cases "x = y")
    case True
    then show ?thesis using sublist_in_context [of x x "[]" "sep @ join sep (z # zs)"] by simp
  next
    case False
    then have "sublist x (join sep (z # zs))" using 3 by simp
    then show ?thesis
      using sublist_in_context [of x "join sep (z # zs)" "y @ sep" "[]"] by simp
  qed
qed

lemma sublist_repr_str: "list_all plain_char n \<Longrightarrow> sublist n (repr_str r n)"
  using sublist_in_context [of n n "[39]" "[39]"] by (simp add: repr_str_def)

lemma sublist_trans: "sublist a b \<Longrightarrow> sublist b c \<Longrightarrow> sublist a c"
proof -
  assume "sublist a b" "sublist b c"
  then obtain u v where c: "c = u @ b @ v" by (auto simp: sublist_def)
  show ?thesis using sublist_in_context [OF \<open>sublist a b\<close>, of u v] c by simp
qed

lemma sublist_str_list:
  assumes "n \<in> set xs" "list_all plain_char n"
  shows "sublist n (str_list r xs)"
proof -
  have "repr_str r n \<in> set (map (repr_str r) xs)" using assms by simp
  then have "sublist (repr_str r n) (join (lit '', '') (map (repr_str r) xs))"
    by (rule sublist_join)
  then have "sublist n (join (lit '', '') (map (repr_str r) xs))"
    using sublist_trans [OF sublist_repr_str [OF assms(2)]] by blast
  then show ?thesis
    unfolding str_list_def by (rule sublist_in_context)
qed

lemma set_format_loop_append:
  "set_format_loop H (before @ later) opts =
     (case set_format_loop H before opts of
        (None, opts1) \<Rightarrow> set_format_loop H later opts1
      | (Some e, opts1) \<Rightarrow> (Some e, opts1))"
proof (induction before arbitrary: opts)
  case Nil
  then show ?case by simp
next
  case (Cons a before)
  obtain arg v where a: "a = (arg, v)" by (cases a)
  show ?case
    using Cons.IH by (simp add: a Let_def split: sum.splits)
qed

lemma startswith_vet_option_of: "startswith (vet_option_of arg) (lit ''vet.'')"
  by (simp add: vet_option_of_def startswith_def)

text \<open>
  C6. Let the arguments before \<open>arg\<close> have been processed without an exception, leaving
  the registry \<open>opts1\<close>. If the qualified name of \<open>arg\<close> is not among the options that
  \<open>_select_options("vet")\<close> lists, \<open>set_format\<close> raises \<open>AttributeError\<close> at once: the
  later arguments play no part, the registry stays \<open>opts1\<close> (this argument changes no
  option), and the message contains the qualified name and the list of the valid option
  names (each name that \<open>repr\<close> writes verbatim appears in it). If the name is
  recognized, \<open>pd.set_option\<close> is applied to it and the value, and the loop goes on with
  the registry it returns.
\<close>

theorem set_format_unknown_option:
  assumes "set_format_loop H before (options s) = (None, opts1)"
  shows "(vet_option_of arg \<notin> set (pd_select_options H (lit ''vet'') opts1) \<longrightarrow>
            set_format H self (before @ (arg, v) # rest) s
              = (Inl (set_format_error H opts1 (vet_option_of arg)), s\<lparr>options := opts1\<rparr>)
            \<and> class_of (set_format_error H opts1 (vet_option_of arg)) = AttributeError
            \<and> sublist (vet_option_of arg) (message_of (set_format_error H opts1 (vet_option_of arg)))
            \<and> sublist (str_list (py_repr_other H) (pd_select_options H (lit ''vet'') opts1))
                 (message_of (set_format_error H opts1 (vet_option_of arg))))
       \<and> (\<forall>n \<in> set (pd_select_options H (lit ''vet'') opts1).
             list_all plain_char n \<longrightarrow>
             sublist n (message_of (set_format_error H opts1 (vet_option_of arg))))
       \<and> (vet_option_of arg \<in> set (pd_select_options H (lit ''vet'') opts1) \<longrightarrow>
            (\<forall>opts2. pd_set_option H (vet_option_of arg) v opts1 = Inr opts2 \<longrightarrow>
               set_format H self (before @ (arg, v) # rest) s
                 = set_format H self rest (s\<lparr>options := opts2\<rparr>)))"
proof (intro conjI impI ballI allI)
  assume "vet_option_of arg \<notin> set (pd_select_options H (lit ''vet'') opts1)"
  then show "set_format H self (before @ (arg, v) # rest) s
              = (Inl (set_format_error H opts1 (vet_option_of arg)), s\<lparr>options := opts1\<rparr>)"
    using assms by (simp add: set_format_def set_format_loop_append Let_def)
next
  show "class_of (set_format_error H opts1 (vet_option_of arg)) = AttributeError"
    by (simp add: set_format_error_def)
next
  show "sublist (vet_option_of arg) (message_of (set_format_error H opts1 (vet_option_of arg)))"
    unfolding set_format_error_def message_of.simps
    using sublist_in_context [of "vet_option_of arg" "vet_option_of arg" "lit ''No Pandas Vet option for ''"] 
    by simp
next
  show "sublist (str_list (py_repr_other H) (pd_select_options H (lit ''vet'') opts1))
                 (message_of (set_format_error H opts1 (vet_option_of arg)))"
    unfolding set_format_error_def message_of.simps
    using sublist_in_context [of "str_list (py_repr_other H) (pd_select_options H (lit ''vet'') opts1)" _ "lit ''No Pandas Vet option for '' @ vet_option_of arg @ lit ''. Available options: ''" "[]"] 
    by simp
next
  fix n
  assume "n \<in> set (pd_select_options H (lit ''vet'') opts1)" "list_all plain_char n"
  then have "sublist n (str_list (py_repr_other H) (pd_select_options H (lit ''vet'') opts1))"
    by (rule sublist_str_list)
  then show "sublist n (message_of (set_format_error H opts1 (vet_option_of arg)))"
    unfolding set_format_error_def message_of.simps
    using sublist_in_context [of n _ "lit ''No Pandas Vet option for '' @ vet_option_of arg @ lit ''. Available options: ''" "[]"] 
    by simp
next
  fix opts2
  assume "vet_option_of arg \<in> set (pd_select_options H (lit ''vet'') opts1)"
    and "pd_set_option H (vet_option_of arg) v opts1 = Inr opts2"
  then show "set_format H self (before @ (arg, v) # rest) s
                 = set_format H self rest (s\<lparr>options := opts2\<rparr>)"
    using assms
    by (simp add: set_format_def set_format_loop_append Let_def split: prod.splits option.splits)
qed


text \<open>
  In the example registry: \<open>colour\<close> is unknown, so the call fails and the later
  \<open>precision=3\<close> is not applied; \<open>precision=3\<close> alone sets \<open>vet.precision\<close>.
\<close>

theorem set_format_unknown_option_witness:
  "set_format_loop example_host [] (options (state_of nulls_table)) = (None, options (state_of nulls_table))
   \<and> vet_option_of (lit ''colour'') \<notin> set (pd_select_options example_host (lit ''vet'') (options (state_of nulls_table)))
   \<and> set_format example_host example_self [(lit ''colour'', VBool True), (lit ''precision'', VInt 3)] (state_of nulls_table)
       = (Inl (Raise AttributeError
                (lit ''No Pandas Vet option for vet.colour. Available options: [''
                 @ [39] @ lit ''vet.precision'' @ [39] @ lit '', '' @ [39] @ lit ''vet.use_emojis'' @ [39] @ lit '']'')),
          state_of nulls_table)
   \<and> list_all plain_char (lit ''vet.use_emojis'')
   \<and> sublist (lit ''vet.use_emojis'')
        (message_of (set_format_error example_host (options (state_of nulls_table)) (vet_option_of (lit ''colour''))))
   \<and> vet_option_of (lit ''precision'') \<in> set (pd_select_options example_host (lit ''vet'') (options (state_of nulls_table)))
   \<and> set_format example_host example_self [(lit ''precision'', VInt 3)] (state_of nulls_table)
       = (Inr 7, (state_of nulls_table)\<lparr>options := (options (state_of nulls_table))(lit ''vet.precision'' \<mapsto> VInt 3)\<rparr>)"
proof -
  let ?s = "state_of nulls_table"
  have l0: "set_format_loop example_host [] (options ?s) = (None, options ?s)"
    by simp
  have v1: "vet_option_of (lit ''colour'') = lit ''vet.colour''"
    and v2: "vet_option_of (lit ''precision'') = lit ''vet.precision''"
    by (simp_all add: vet_option_of_def startswith_def)
  have n1: "vet_option_of (lit ''colour'') \<notin> set (pd_select_options example_host (lit ''vet'') (options ?s))"
    and n2: "vet_option_of (lit ''precision'') \<in> set (pd_select_options example_host (lit ''vet'') (options ?s))"
    and n3: "lit ''vet.use_emojis'' \<in> set (pd_select_options example_host (lit ''vet'') (options ?s))"
    using v1 v2 by simp_all
  have p: "list_all plain_char (lit ''vet.use_emojis'')"
    by (simp add: plain_char_def)
  note t = set_format_unknown_option [OF l0, where self = example_self]
  have a: "set_format example_host example_self [(lit ''colour'', VBool True), (lit ''precision'', VInt 3)] ?s
       = (Inl (set_format_error example_host (options ?s) (vet_option_of (lit ''colour''))), ?s)"
    using t [where arg = "lit ''colour''" and v = "VBool True"
               and rest = "[(lit ''precision'', VInt 3)]",
             THEN conjunct1, rule_format, OF n1, THEN conjunct1]
    by simp
  have e: "set_format_error example_host (options ?s) (vet_option_of (lit ''colour''))
      = Raise AttributeError
                (lit ''No Pandas Vet option for vet.colour. Available options: [''
                 @ [39] @ lit ''vet.precision'' @ [39] @ lit '', '' @ [39] @ lit ''vet.use_emojis'' @ [39] @ lit '']'')"
    using v1 by (simp add: set_format_error_def str_list_def repr_str_def plain_char_def)
  have b: "sublist (lit ''vet.use_emojis'')
        (message_of (set_format_error example_host (options ?s) (vet_option_of (lit ''colour''))))"
    by (rule t [where arg = "lit ''colour''", THEN conjunct2, THEN conjunct1, rule_format, OF n3 p])
  have s3: "pd_set_option example_host (vet_option_of (lit ''precision'')) (VInt 3) (options ?s)
              = Inr ((options ?s)(lit ''vet.precision'' \<mapsto> VInt 3))"
    using v2 by simp
  have c: "set_format example_host example_self [(lit ''precision'', VInt 3)] ?s
       = set_format example_host example_self [] (?s\<lparr>options := (options ?s)(lit ''vet.precision'' \<mapsto> VInt 3)\<rparr>)"
    using t [where arg = "lit ''precision''" and v = "VInt 3" and rest = "[]",
             THEN conjunct2, THEN conjunct2, rule_format, OF n2 s3]
    by simp
  have d: "set_format example_host example_self [] (?s\<lparr>options := (options ?s)(lit ''vet.precision'' \<mapsto> VInt 3)\<rparr>)
       = (Inr 7, ?s\<lparr>options := (options ?s)(lit ''vet.precision'' \<mapsto> VInt 3)\<rparr>)"
    by (simp add: set_format_def)
  show ?thesis
    using l0 n1 a e p b n2 c d by (simp only: simp_thms)
qed

section \<open>nnulls\<close>

lemma sum_indicator: "sum_list (map (\<lambda>x. if P x then (1::int) else 0) xs) = int (length (filter P xs))"
  by (induction xs) simp_all

lemma column_total_isna:
  "column_total (Frame cs (map (map cell_isna) rs)) j = int (spec_null_count_of_column (Frame cs rs) j)"
proof -
  have "\<And>r. cell_num (cell_at (map cell_isna r) j) = (if j < length r \<and> r ! j = Null then 1 else 0)"
    by (simp add: cell_at_def cell_isna_def)
  then show ?thesis
    by (simp add: column_total_def spec_null_count_of_column_def comp_def sum_indicator)
qed

lemma items_positional: "map snd (items (positional vs)) = vs"
proof -
  have "map snd (map (\<lambda>(i, v). (Pos i, v)) (enumerate 0 vs)) = map snd (enumerate 0 vs)"
    by (simp add: case_prod_unfold comp_def)
  then show ?thesis by (simp add: positional_def)
qed

lemma sum_positional:
  "sum_list (map (\<lambda>(l, c). cell_num c) (items (positional vs))) = sum_list (map cell_num vs)"
proof -
  have "map (\<lambda>(l, c). cell_num c) (items (positional vs)) = map cell_num (map snd (items (positional vs)))"
    by (simp add: case_prod_unfold comp_def)
  then show ?thesis by (simp only: items_positional)
qed

lemma any_isna: "list_ex cell_true (map cell_isna r) = (Null \<in> set r)"
  by (induction r) (auto simp: cell_isna_def)

lemma na_counts_by_column:
  "na_counts_of H (VFrame df) True = Inr (VSeries (spec_per_column_null_counts df))"
proof (cases df)
  case (Frame cs rs)
  show ?thesis
    by (simp add: Frame na_counts_of_def isna_def sum_values_def spec_per_column_null_counts_def
        column_total_isna)
qed

lemma na_counts_by_row:
  "na_counts_of H (VFrame df) False = Inr (VInt (int (spec_rows_with_any_null df)))"
proof -
  have "sum_list (map cell_num (map (\<lambda>r. B (list_ex cell_true r)) (map (map cell_isna) (rws df))))
          = int (spec_rows_with_any_null df)"
    by (simp add: comp_def any_isna spec_rows_with_any_null_def sum_indicator)
  then show ?thesis
    by (simp add: na_counts_of_def isna_def any_axis1_def sum_values_def sum_positional)
qed


lemma self_obj_py_print [simp]: "self_obj self (py_print t s) = self_obj self s"
  by (simp add: self_obj_def)

lemma check_data_plain:
  "check_data H v identity_fn identity_fn SNone cn s
     = (Inr (), log_event (Display (map_option (filter_emojis H (options s)) cn) v) s)"
  by (simp add: check_data_def modify_data_def identity_fn_def)

lemma shape0_frame: "then_do (shape_of H (VFrame df)) (item_at H 0) = Inr (VInt (int (length (rws df))))"
  by (simp add: shape_of_def item_at_def)

text \<open>
  C5, as amended. Let the resolved data be a table \<open>df\<close> and let no label be given. With
  \<open>by_column=True\<close>, \<open>nnulls\<close> computes for each column the number of its null cells and
  shows them as a Series labelled by the column names; with \<open>by_column=False\<close> it computes
  the number of rows with a null cell in some column and prints it on one line with the
  number of rows. In both cases it returns \<open>self._obj\<close>. For the table with the columns
  \<open>a\<close>, \<open>b\<close> and the rows \<open>(1, None)\<close>, \<open>(2, 2)\<close> the counts per column are
  \<open>{a: 0, b: 1}\<close> and the number of rows with a null is 1.
\<close>

theorem nnulls_reports_null_counts:
  assumes "modify_data H (self_obj self s) fn sub = Inr (VFrame df)"
    and "\<not> name_truthy check_name"
  shows "na_counts_of H (VFrame df) True = Inr (VSeries (spec_per_column_null_counts df))
       \<and> na_counts_of H (VFrame df) False = Inr (VInt (int (spec_rows_with_any_null df)))
       \<and> nnulls H self fn sub True check_name s
           = (Inr (obj self),
              log_event (Display (Some (filter_emojis H (options s) (nnulls_label H sub [])))
                           (VSeries (spec_per_column_null_counts df)))
                (py_print [] s))
       \<and> nnulls H self fn sub False check_name s
           = (Inr (obj self),
              py_print (filter_emojis H (options s) (nnulls_label H sub (lit '': ''))
                        @ str_int (int (spec_rows_with_any_null df)) @ lit '' out of ''
                        @ str_int (int (length (rws df))))
                (py_print [] s))"
proof (intro conjI)
  show c1: "na_counts_of H (VFrame df) True = Inr (VSeries (spec_per_column_null_counts df))"
    by (rule na_counts_by_column)
  show c2: "na_counts_of H (VFrame df) False = Inr (VInt (int (spec_rows_with_any_null df)))"
    by (rule na_counts_by_row)
  show "nnulls H self fn sub True check_name s
           = (Inr (obj self),
              log_event (Display (Some (filter_emojis H (options s) (nnulls_label H sub [])))
                           (VSeries (spec_per_column_null_counts df)))
                (py_print [] s))"
    using assms
    by (simp add: nnulls_def Let_def c1 check_data_plain returning_def)
  show "nnulls H self fn sub False check_name s
           = (Inr (obj self),
              py_print (filter_emojis H (options s) (nnulls_label H sub (lit '': ''))
                        @ str_int (int (spec_rows_with_any_null df)) @ lit '' out of ''
                        @ str_int (int (length (rws df))))
                (py_print [] s))"
    using assms
    by (simp add: nnulls_def Let_def c2 shape0_frame str_val_def)
qed

lemma nulls_table_counts:
  "spec_per_column_null_counts nulls_table = Series [(Name (lit ''a''), I 0), (Name (lit ''b''), I 1)]"
  "spec_rows_with_any_null nulls_table = 1"
  "length (rws nulls_table) = 2"
  by (simp_all add: spec_per_column_null_counts_def spec_null_count_of_column_def spec_rows_with_any_null_def
      nulls_table_def)

lemma str_int_digit: "0 \<le> i \<Longrightarrow> i < 10 \<Longrightarrow> str_int i = [48 + nat i]"
  by (simp add: str_int_def str_nat.simps)

lemma nnulls_label_example:
  "filter_emojis example_host (options (state_of df)) (nnulls_label example_host SNone ending)
     = [128123] @ lit '' Rows with NaNs'' @ ending"
  by (simp add: filter_emojis_def nnulls_label_def)

theorem nnulls_reports_null_counts_witness:
  "modify_data example_host (self_obj example_self (state_of nulls_table)) identity_fn SNone
     = Inr (VFrame nulls_table)
   \<and> \<not> name_truthy None
   \<and> out (snd (nnulls example_host example_self identity_fn SNone True None (state_of nulls_table)))
       = [Print [],
          Display (Some ([128123] @ lit '' Rows with NaNs''))
            (VSeries (Series [(Name (lit ''a''), I 0), (Name (lit ''b''), I 1)]))]
   \<and> out (snd (nnulls example_host example_self identity_fn SNone False None (state_of nulls_table)))
       = [Print [], Print ([128123] @ lit '' Rows with NaNs: 1 out of 2'')]"
proof -
  note t = nnulls_reports_null_counts [OF modify_example [of nulls_table], of None]
  have a: "nnulls example_host example_self identity_fn SNone True None (state_of nulls_table)
      = (Inr 7, log_event (Display (Some ([128123] @ lit '' Rows with NaNs''))
            (VSeries (Series [(Name (lit ''a''), I 0), (Name (lit ''b''), I 1)]))) (py_print [] (state_of nulls_table)))"
    using t [THEN conjunct2, THEN conjunct2, THEN conjunct1]
    by (simp add: nulls_table_counts nnulls_label_example)
  have b: "nnulls example_host example_self identity_fn SNone False None (state_of nulls_table)
      = (Inr 7, py_print ([128123] @ lit '' Rows with NaNs: 1 out of 2'') (py_print [] (state_of nulls_table)))"
    using t [THEN conjunct2, THEN conjunct2, THEN conjunct2]
    by (simp add: nulls_table_counts nnulls_label_example str_int_digit)
  show ?thesis
    by (simp add: a b log_event_def py_print_def)
qed

text \<open>
  The example of the claim as stated, \<open>{a: 1, b: 0}\<close>, is not what the code reports for
  that table: the null stands in column \<open>b\<close>.
\<close>

theorem nnulls_example_counterexample:
  "out (snd (nnulls example_host example_self identity_fn SNone True None (state_of nulls_table)))
       = [Print [],
          Display (Some ([128123] @ lit '' Rows with NaNs''))
            (VSeries (Series [(Name (lit ''a''), I 0), (Name (lit ''b''), I 1)]))]
   \<and> Series [(Name (lit ''a''), I 0), (Name (lit ''b''), I 1)]
       \<noteq> Series [(Name (lit ''a''), I 1), (Name (lit ''b''), I 0)]"
proof -
  have "na_counts_of example_host (VFrame nulls_table) True
          = Inr (VSeries (Series [(Name (lit ''a''), I 0), (Name (lit ''b''), I 1)]))"
    by (simp add: na_counts_of_def isna_def sum_values_def column_total_def cell_at_def
        cell_isna_def nulls_table_def)
  then have "nnulls example_host example_self identity_fn SNone True None (state_of nulls_table)
      = (Inr 7, log_event (Display (Some ([128123] @ lit '' Rows with NaNs''))
            (VSeries (Series [(Name (lit ''a''), I 0), (Name (lit ''b''), I 1)])))
          (py_print [] (state_of nulls_table)))"
    by (simp add: nnulls_def Let_def check_data_plain returning_def nnulls_label_example)
  then show ?thesis
    by (simp add: log_event_def py_print_def)
qed

section \<open>ndups\<close>



















lemma filter_emojis_example [simp]:
  "filter_emojis example_host (options (state_of df)) t = t"
  by (simp add: filter_emojis_def)




end
